theory Spec2Isabelle
  imports Complex_Main "HOL-Library.Sublist" "HOL-Library.Log_Nat" "HOL-Library.Multiset"
begin

section \<open>Python strings\<close>

text \<open>
  A Python \<open>str\<close> is a sequence of Unicode code points; it is modelled as the list of
  its code points, so that \<open>len\<close>, indexing, \<open>in\<close> and the character classes work on
  characters as they do in Python. \<open>str\<close> embeds an ASCII literal.

  White space (\<open>str.isspace\<close>, \<open>str.strip\<close>, the class \<open>\s\<close> of \<open>re\<close>) and line
  boundaries (\<open>str.splitlines\<close>) are the complete Unicode sets CPython uses.
  Case mapping, \<open>isalpha\<close>, \<open>isdigit\<close> and the classes \<open>\d\<close> and \<open>\w\<close> are those
  of CPython on the code points below 256 (ASCII and Latin-1), but for the upper case of
  U+00B5, U+00DF and U+00FF, which lies outside that range; a code point from 256 on is
  taken to be no letter and no digit and to have no case.
\<close>

type_synonym pystr = "nat list"

definition str :: "string \<Rightarrow> pystr" where
  "str cs = map of_char cs"

definition py_isspace :: "nat \<Rightarrow> bool" where
  "py_isspace c \<longleftrightarrow>
     (9 \<le> c \<and> c \<le> 13) \<or> (28 \<le> c \<and> c \<le> 32) \<or> c = 133 \<or> c = 160 \<or> c = 5760 \<or>
     (8192 \<le> c \<and> c \<le> 8202) \<or> c = 8232 \<or> c = 8233 \<or> c = 8239 \<or> c = 8287 \<or> c = 12288"

text \<open>\<open>c.isdigit()\<close> holds of the ASCII digits and of the superscripts one, two, three;
  only the former are decimal digits, which \<open>float\<close> and \<open>\d\<close> accept.\<close>

definition is_decimal :: "nat \<Rightarrow> bool" where
  "is_decimal c \<longleftrightarrow> 48 \<le> c \<and> c \<le> 57"

definition py_isdigit :: "nat \<Rightarrow> bool" where
  "py_isdigit c \<longleftrightarrow> is_decimal c \<or> c = 178 \<or> c = 179 \<or> c = 185"

definition is_upper_char :: "nat \<Rightarrow> bool" where
  "is_upper_char c \<longleftrightarrow> (65 \<le> c \<and> c \<le> 90) \<or> (192 \<le> c \<and> c \<le> 222 \<and> c \<noteq> 215)"

definition is_lower_char :: "nat \<Rightarrow> bool" where
  "is_lower_char c \<longleftrightarrow> (97 \<le> c \<and> c \<le> 122) \<or> (224 \<le> c \<and> c \<le> 254 \<and> c \<noteq> 247)"

definition lower_char :: "nat \<Rightarrow> nat" where
  "lower_char c = (if is_upper_char c then c + 32 else c)"

definition upper_char :: "nat \<Rightarrow> nat" where
  "upper_char c = (if is_lower_char c then c - 32 else c)"

definition py_lower :: "pystr \<Rightarrow> pystr" where
  "py_lower s = map lower_char s"

definition py_upper :: "pystr \<Rightarrow> pystr" where
  "py_upper s = map upper_char s"

definition is_alpha_char :: "nat \<Rightarrow> bool" where
  "is_alpha_char c \<longleftrightarrow>
     is_upper_char c \<or> is_lower_char c \<or> c = 170 \<or> c = 181 \<or> c = 186 \<or> c = 223 \<or> c = 255"

text \<open>\<open>s.isalpha()\<close>: at least one character, and all of them letters.\<close>

definition py_isalpha :: "pystr \<Rightarrow> bool" where
  "py_isalpha s \<longleftrightarrow> s \<noteq> [] \<and> list_all is_alpha_char s"

text \<open>\<open>s.strip()\<close> and \<open>s.lstrip(chars)\<close>; the latter removes leading characters as
  long as they occur in \<open>chars\<close>, which it reads as a set of characters, not as a prefix.\<close>

definition strip :: "pystr \<Rightarrow> pystr" where
  "strip s = rev (dropWhile py_isspace (rev (dropWhile py_isspace s)))"

definition lstrip :: "pystr \<Rightarrow> pystr \<Rightarrow> pystr" where
  "lstrip chars s = dropWhile (\<lambda>c. c \<in> set chars) s"

text \<open>\<open>s.replace(old, new)\<close> for a one-character \<open>old\<close>.\<close>

definition replace_char :: "nat \<Rightarrow> pystr \<Rightarrow> pystr \<Rightarrow> pystr" where
  "replace_char old new s = concat (map (\<lambda>c. if c = old then new else [c]) s)"

text \<open>\<open>sep.join(parts)\<close>.\<close>

fun join :: "pystr \<Rightarrow> pystr list \<Rightarrow> pystr" where
  "join sep [] = []"
| "join sep [x] = x"
| "join sep (x # y # ys) = x @ sep @ join sep (y # ys)"

text \<open>
  \<open>s.splitlines()\<close>: a line ends at \<open>\n\<close>, \<open>\r\<close>, \<open>\r\n\<close>, \<open>\v\<close>, \<open>\f\<close>,
  \<open>\x1c\<close>, \<open>\x1d\<close>, \<open>\x1e\<close>, \<open>\x85\<close>, U+2028 or U+2029; the boundaries are
  dropped, and no empty last line is produced when the text ends with a boundary.
  The first argument is the line read so far.
\<close>

definition is_linebreak :: "nat \<Rightarrow> bool" where
  "is_linebreak c \<longleftrightarrow>
     (10 \<le> c \<and> c \<le> 13) \<or> (28 \<le> c \<and> c \<le> 30) \<or> c = 133 \<or> c = 8232 \<or> c = 8233"

fun splitlines_from :: "pystr \<Rightarrow> pystr \<Rightarrow> pystr list" where
  "splitlines_from cur [] = (if cur = [] then [] else [cur])"
| "splitlines_from cur [c] = (if is_linebreak c then [cur] else [cur @ [c]])"
| "splitlines_from cur (c # d # cs) =
     (if c = 13 \<and> d = 10 then cur # splitlines_from [] cs
      else if is_linebreak c then cur # splitlines_from [] (d # cs)
      else splitlines_from (cur @ [c]) (d # cs))"

definition splitlines :: "pystr \<Rightarrow> pystr list" where
  "splitlines s = splitlines_from [] s"

text \<open>\<open>sub in s\<close>: \<open>sub\<close> occurs in \<open>s\<close> as a contiguous substring.\<close>

fun py_in :: "pystr \<Rightarrow> pystr \<Rightarrow> bool" where
  "py_in sub [] = (sub = [])"
| "py_in sub (c # cs) = (prefix sub (c # cs) \<or> py_in sub cs)"

section \<open>The regular expressions of the source\<close>

text \<open>
  The patterns of \<open>normalization.py\<close> and \<open>agent.py\<close> are one group holding an
  alternation of atoms: literal strings and, in \<open>COIN_SYMBOL_RE\<close>, the class \<open>\s\<close>.
  Both are compiled with \<open>re.IGNORECASE\<close>. The engine tries the alternatives in the order
  written and takes the first that matches at the current position.
\<close>

datatype atom = Lit pystr | Space

fun match_atom :: "atom \<Rightarrow> pystr \<Rightarrow> pystr option" where
  "match_atom (Lit l) s =
     (if length l \<le> length s \<and> py_lower (take (length l) s) = py_lower l
      then Some (take (length l) s) else None)"
| "match_atom Space s =
     (case s of [] \<Rightarrow> None | c # cs \<Rightarrow> if py_isspace c then Some [c] else None)"

text \<open>
  \<open>alt_match adv alts s\<close> is the text matched at the start of \<open>s\<close>. With \<open>adv\<close> set (the
  engine's \<open>must_advance\<close>), an empty match is refused and the next alternative is tried.
\<close>

fun alt_match :: "bool \<Rightarrow> atom list \<Rightarrow> pystr \<Rightarrow> pystr option" where
  "alt_match adv [] s = None"
| "alt_match adv (a # as) s =
     (case match_atom a s of
        None \<Rightarrow> alt_match adv as s
      | Some m \<Rightarrow> if adv \<and> m = [] then alt_match adv as s else Some m)"

text \<open>\<open>re.search(pattern, s).group(1)\<close>: the leftmost match; \<open>None\<close> when there is none.\<close>

fun re_search :: "atom list \<Rightarrow> pystr \<Rightarrow> pystr option" where
  "re_search alts [] = alt_match False alts []"
| "re_search alts (c # cs) =
     (case alt_match False alts (c # cs) of
        Some m \<Rightarrow> Some m
      | None \<Rightarrow> re_search alts cs)"

lemma match_atom_length: "match_atom a s = Some m \<Longrightarrow> length m \<le> length s"
  by (cases a) (auto split: if_splits list.splits)

lemma alt_match_length: "alt_match adv alts s = Some m \<Longrightarrow> length m \<le> length s"
  by (induction alts) (auto split: option.splits if_splits dest: match_atom_length)

lemma alt_match_advances: "alt_match True alts s = Some m \<Longrightarrow> m \<noteq> []"
  by (induction alts) (auto split: option.splits if_splits)

text \<open>
  \<open>re.sub(pattern, "", s)\<close> (CPython 3.7 and later): every match is deleted. After an
  empty match the next search starts at the same position with \<open>must_advance\<close> set, so a
  non-empty alternative is still tried there; when nothing matches at a position, its
  character is kept and the search moves on.
\<close>

function re_sub :: "bool \<Rightarrow> atom list \<Rightarrow> pystr \<Rightarrow> pystr" where
  "re_sub adv alts s =
     (case alt_match adv alts s of
        Some m \<Rightarrow> re_sub (m = []) alts (drop (length m) s)
      | None \<Rightarrow> (case s of [] \<Rightarrow> [] | c # cs \<Rightarrow> c # re_sub False alts cs))"
  by pat_completeness auto
termination
proof (relation "measure (\<lambda>(adv, alts, s). 2 * length s + (if adv then 0 else 1))")
  show "wf (measure (\<lambda>(adv, alts, s). 2 * length s + (if adv then 0 else 1)))"
    by simp
next
  fix adv :: bool and alts :: "atom list" and s m :: pystr
  assume m: "alt_match adv alts s = Some m"
  show "((m = [], alts, drop (length m) s), (adv, alts, s))
          \<in> measure (\<lambda>(adv, alts, s). 2 * length s + (if adv then 0 else 1))"
  proof (cases "m = []")
    case True
    with m have "\<not> adv" using alt_match_advances by (cases adv) auto
    with True show ?thesis by simp
  next
    case False
    moreover from m have "length m \<le> length s" by (rule alt_match_length)
    ultimately have "2 * (length s - length m) + 2 \<le> 2 * length s" by (cases m) auto
    with False show ?thesis by auto
  qed
next
  fix adv :: bool and alts :: "atom list" and s cs :: pystr and c :: nat
  assume "alt_match adv alts s = None" "s = c # cs"
  then show "((False, alts, cs), (adv, alts, s))
          \<in> measure (\<lambda>(adv, alts, s). 2 * length s + (if adv then 0 else 1))"
    by simp
qed

declare re_sub.simps [simp del]

section \<open>Python floats\<close>

text \<open>
  A Python \<open>float\<close> is an IEEE 754 binary64 number. The values the normalizer can
  produce are non-negative, so a float is modelled as its exact rational value or
  \<open>Infinity\<close>. The result of \<open>float(s)\<close> and of a product is the exact result
  rounded to the nearest binary64 number, ties to even, with gradual underflow
  (least exponent \<open>-1074\<close>) and overflow to infinity from \<open>2 ^ 1024\<close> on.
\<close>

datatype pyfloat = Finite rat | Infinity

definition pow2 :: "int \<Rightarrow> rat" where
  "pow2 e = (if 0 \<le> e then 2 ^ nat e else 1 / 2 ^ nat (- e))"

text \<open>The integer part of the binary logarithm of a positive rational.\<close>

definition floor_log2 :: "rat \<Rightarrow> int" where
  "floor_log2 q =
     (if 1 \<le> q then int (floorlog 2 (nat \<lfloor>q\<rfloor>)) - 1
      else - int (floorlog 2 (nat (\<lceil>1 / q\<rceil> - 1))))"

definition round_half_even :: "rat \<Rightarrow> int" where
  "round_half_even x =
     (let f = \<lfloor>x\<rfloor>; r = x - of_int f
      in if r < 1 / 2 then f else if 1 / 2 < r then f + 1
         else if even f then f else f + 1)"

text \<open>\<open>q\<close> rounded to binary64: the significand is \<open>q / 2 ^ e\<close> rounded to an
  integer, where \<open>e\<close> leaves it 53 bits, or is the least exponent.\<close>

definition dbl_round :: "rat \<Rightarrow> pyfloat" where
  "dbl_round q =
     (if q = 0 then Finite 0
      else
        let e = max (floor_log2 q - 52) (- 1074);
            v = of_int (round_half_even (q / pow2 e)) * pow2 e
        in if 2 ^ 1024 \<le> v then Infinity else Finite v)"

text \<open>\<open>x * m\<close> for a float \<open>x\<close> and a positive multiplier \<open>m\<close> that is a binary64 number.\<close>

fun fmul :: "pyfloat \<Rightarrow> rat \<Rightarrow> pyfloat" where
  "fmul (Finite a) m = dbl_round (a * m)"
| "fmul Infinity m = Infinity"

text \<open>
  \<open>float(s)\<close> for a string of digits and full stops, the only strings the normalizer
  passes: \<open>None\<close> is the \<open>ValueError\<close> raised when there is no digit, more than one
  full stop or a digit that is not decimal; otherwise the decimal value, correctly rounded.
\<close>

definition digits_value :: "pystr \<Rightarrow> nat" where
  "digits_value ds = foldl (\<lambda>a c. 10 * a + (c - 48)) 0 ds"

definition py_float :: "pystr \<Rightarrow> pyfloat option" where
  "py_float s =
     (let ip = takeWhile is_decimal s
      in case dropWhile is_decimal s of
           [] \<Rightarrow> if ip = [] then None else Some (dbl_round (of_nat (digits_value ip)))
         | c # fp \<Rightarrow>
             if c = 46 \<and> list_all is_decimal fp \<and> \<not> (ip = [] \<and> fp = [])
             then Some (dbl_round (of_nat (digits_value (ip @ fp)) / 10 ^ length fp))
             else None)"

text \<open>Truth value of a float (\<open>if x:\<close>), and \<open>int(x)\<close>, which raises \<open>OverflowError\<close>
  on infinity (\<open>None\<close>) and truncates otherwise.\<close>

fun truthy :: "pyfloat \<Rightarrow> bool" where
  "truthy (Finite q) = (q \<noteq> 0)"
| "truthy Infinity = True"

fun py_int :: "pyfloat \<Rightarrow> int option" where
  "py_int (Finite q) = Some (if 0 \<le> q then \<lfloor>q\<rfloor> else \<lceil>q\<rceil>)"
| "py_int Infinity = None"

section \<open>Value Normalizer (\<open>app/utils/normalization.py\<close>)\<close>

definition COIN_SYMBOL_RE :: "atom list" where
  "COIN_SYMBOL_RE = [Lit [], Lit (str ''R$''), Lit (str ''US$''), Lit [8364], Lit (str ''$''), Space]"

definition MULTIPLIERS :: "(pystr \<times> rat) list" where
  "MULTIPLIERS =
     [(str ''k'', 10 ^ 3), (str ''mil'', 10 ^ 3), (str ''thousand'', 10 ^ 3),
      (str ''m'', 10 ^ 6), (str ''mi'', 10 ^ 6), (str ''milh'' @ [227] @ str ''o'', 10 ^ 6),
      (str ''milh'' @ [245] @ str ''es'', 10 ^ 6), (str ''million'', 10 ^ 6),
      (str ''b'', 10 ^ 9), (str ''bi'', 10 ^ 9), (str ''bilh'' @ [227] @ str ''o'', 10 ^ 9),
      (str ''bilh'' @ [245] @ str ''es'', 10 ^ 9), (str ''billion'', 10 ^ 9),
      (str ''t'', 10 ^ 12), (str ''tri'', 10 ^ 12), (str ''trilh'' @ [227] @ str ''o'', 10 ^ 12),
      (str ''trilh'' @ [245] @ str ''es'', 10 ^ 12), (str ''trillion'', 10 ^ 12)]"

definition is_number_char :: "nat \<Rightarrow> bool" where
  "is_number_char c \<longleftrightarrow> py_isdigit c \<or> c = 46"

text \<open>The text after the symbols are removed and the decimal convention is decided.\<close>

definition clean_text :: "pystr \<Rightarrow> pystr" where
  "clean_text raw_value =
     (let text = strip (re_sub False COIN_SYMBOL_RE (py_lower raw_value))
      in if 46 \<in> set text \<and> 44 \<in> set text
         then replace_char 44 [46] (replace_char 46 [] text)
         else replace_char 44 [46] text)"

definition number_part_str :: "pystr \<Rightarrow> pystr" where
  "number_part_str text = filter is_number_char text"

definition multiplier_part_str :: "pystr \<Rightarrow> pystr" where
  "multiplier_part_str text = filter (\<lambda>c. \<not> is_number_char c) text"

definition normalize_aum_value :: "pystr \<Rightarrow> pyfloat option" where
  "normalize_aum_value raw_value =
     (if py_isalpha (py_lower raw_value) then None
      else
        let text = clean_text raw_value
        in case py_float (number_part_str text) of
             None \<Rightarrow> None
           | Some number \<Rightarrow>
               Some (fmul number
                 (case map_of MULTIPLIERS (multiplier_part_str text) of
                    Some multiplier \<Rightarrow> multiplier
                  | None \<Rightarrow> 1)))"

section \<open>Persistent entities (\<open>app/db/models.py\<close>)\<close>

text \<open>
  The rows of the tables the pipeline writes. The primary key and the time stamp of a
  row are given by the database and are left out. A session's \<open>add\<close> followed by
  \<open>commit\<close> appends the row to its table.
\<close>

record CompanyLink =
  link_company_id :: int
  platform :: string
  link_url :: pystr

record ScrapeLog =
  log_company_id :: int
  log_url :: pystr
  status :: string
  content_length :: "nat option"
  error_msg :: "pystr option"

record AUMSnapshot =
  company_id :: int
  aum_value :: pystr
  aum_unit :: "pystr option"
  standardized_value :: "int option"
  source_url :: "pystr option"

record Usage =
  usage_company_id :: "int option"
  operation_type :: string
  tokens_used :: int

record database =
  company_links :: "CompanyLink list"
  scrape_logs :: "ScrapeLog list"
  aum_snapshots :: "AUMSnapshot list"
  usage :: "Usage list"

datatype py_error =
  ValueError | OverflowError | KeyError | IntegrityError | MultipleResultsFound

section \<open>Extraction Agent (\<open>app/workers/agent.py\<close>)\<close>

definition NAO_DISPONIVEL :: pystr where
  "NAO_DISPONIVEL = str ''NAO_DISPONIVEL''"

text \<open>The pattern of the unit search, \<open>(|R\$|US\$|\<euro>|\$)\<close> with \<open>re.IGNORECASE\<close>.\<close>

definition UNIT_RE :: "atom list" where
  "UNIT_RE = [Lit [], Lit (str ''R$''), Lit (str ''US$''), Lit [8364], Lit (str ''$'')]"

text \<open>\<open>BudgetManager.log_usage\<close>: one \<open>Usage\<close> row, committed at once.\<close>

definition log_usage :: "database \<Rightarrow> int \<Rightarrow> string \<Rightarrow> int \<Rightarrow> database" where
  "log_usage db cid operation tokens =
     db\<lparr>usage := usage db @
       [\<lparr>usage_company_id = Some cid, operation_type = operation, tokens_used = tokens\<rparr>]\<rparr>"

definition add_snapshot :: "database \<Rightarrow> AUMSnapshot \<Rightarrow> database" where
  "add_snapshot db snapshot = db\<lparr>aum_snapshots := aum_snapshots db @ [snapshot]\<rparr>"

text \<open>
  \<open>extract_aum\<close> from the call of the completion provider on. The provider is a
  capability outside the repository: its answer, whatever the prompt, is either an
  exception (\<open>Inl\<close>) or the completion text with the token count it reports.
  The result is the exception that leaves \<open>extract_aum\<close>, if any, and the database as
  committed up to that point.

  An exception of the provider is logged and the function returns. Otherwise the usage
  is recorded, and the stripped text is parsed: the sentinel, or three lines.
\<close>

definition store_response :: "int \<Rightarrow> pystr \<Rightarrow> database \<Rightarrow> py_error option \<times> database" where
  "store_response cid result_text db =
     (if py_in NAO_DISPONIVEL (py_upper result_text)
      then (None, add_snapshot db
              \<lparr>company_id = cid, aum_value = NAO_DISPONIVEL, aum_unit = None,
               standardized_value = None, source_url = None\<rparr>)
      else
        case splitlines result_text of
          [raw_value, explanation, source_line] \<Rightarrow>
            (case normalize_aum_value raw_value of
               None \<Rightarrow> (None, db)
             | Some value \<Rightarrow>
                 if truthy value then
                   (let unit = (case re_search UNIT_RE raw_value of
                                  Some g \<Rightarrow> g | None \<Rightarrow> str ''USD'')
                    in case py_int value of
                         None \<Rightarrow> (Some OverflowError, db)
                       | Some n \<Rightarrow>
                           (None, add_snapshot db
                              \<lparr>company_id = cid, aum_value = raw_value, aum_unit = Some unit,
                               standardized_value = Some n,
                               source_url = Some (lstrip (str ''Fonte: '') source_line)\<rparr>))
                 else (None, db))
        | _ \<Rightarrow> (Some ValueError, db))"

definition extract_aum ::
  "int \<Rightarrow> (pystr + pystr \<times> int) \<Rightarrow> database \<Rightarrow> py_error option \<times> database" where
  "extract_aum cid response db =
     (case response of
        Inl e \<Rightarrow> (None, db)
      | Inr (content, total_tokens_used) \<Rightarrow>
          store_response cid (strip content) (log_usage db cid ''aum_extraction'' total_tokens_used))"

definition empty_db :: database where
  "empty_db = \<lparr>company_links = [], scrape_logs = [], aum_snapshots = [], usage = []\<rparr>"

text \<open>
  The nullability rule of a snapshot: the standardized value is missing exactly when the
  raw value does not normalize or is the sentinel, and a sentinel snapshot has neither
  unit nor standardized value nor source.
\<close>

definition snapshot_nullable :: "AUMSnapshot \<Rightarrow> bool" where
  "snapshot_nullable snap \<longleftrightarrow>
     ((standardized_value snap = None) =
        (normalize_aum_value (aum_value snap) = None \<or> aum_value snap = NAO_DISPONIVEL)) \<and>
     (if aum_value snap = NAO_DISPONIVEL
      then aum_unit snap = None \<and> standardized_value snap = None \<and> source_url snap = None
      else True)"

section \<open>Discovery Engine: the categorizer (\<open>app/services/discovery.py\<close>)\<close>

text \<open>
  A search hit is the dict \<open>{"title": ..., "url": ...}\<close> that \<open>duckduckgo_search\<close>
  builds. The categories are a dict from category name to a set of URLs; indexing it
  with a name it does not hold raises \<open>KeyError\<close>.
\<close>

record search_hit =
  title :: pystr
  url :: pystr

type_synonym categories = "string \<rightharpoonup> pystr set"

text \<open>The two keyword patterns are alternations of literals (a character class of two
  letters gives two literals), searched in the lower-cased title.\<close>

definition REPORTS_KW :: "pystr list" where
  "REPORTS_KW =
     [str ''relat'' @ [243] @ str ''rio'', str ''relatorio'', str ''report'',
      str ''balan'' @ [231] @ str ''o'', str ''balanco'', str ''demonstrativo'',
      str ''investor relations'']"

definition NEWS_KW :: "pystr list" where
  "NEWS_KW =
     [str ''not'' @ [237] @ str ''cia'', str ''news'', str ''jornal'', str ''magazine'',
      str ''g1'', str ''cnn'', str ''bloomberg'']"

definition kw_search :: "pystr list \<Rightarrow> pystr \<Rightarrow> bool" where
  "kw_search kws s = list_ex (\<lambda>k. py_in k s) kws"

text \<open>\<open>categories[name].add(url)\<close>.\<close>

definition add_url :: "categories \<Rightarrow> string \<Rightarrow> pystr \<Rightarrow> py_error + categories" where
  "add_url cats name u =
     (case cats name of
        None \<Rightarrow> Inl KeyError
      | Some urls \<Rightarrow> Inr (cats(name \<mapsto> insert u urls)))"

text \<open>The body of the loop of \<open>categorize_search_results\<close>, and the loop.\<close>

definition categorize_result :: "search_hit \<Rightarrow> categories \<Rightarrow> py_error + categories" where
  "categorize_result r cats =
     (let u = url r; t = py_lower (title r)
      in if py_in (str ''linkedin.com'') u then add_url cats ''linkedin'' u
         else if py_in (str ''instagram.com'') u then
           (if \<not> py_in (str ''stories'') u \<and> \<not> py_in (str ''reel'') u
            then add_url cats ''instagram'' u else Inr cats)
         else if py_in (str ''twitter.com'') u \<or> py_in (str ''x.com'') u
           then add_url cats ''twitter'' u
         else if py_in (str ''facebook.com'') u then add_url cats ''facebook'' u
         else if kw_search REPORTS_KW t then add_url cats ''reports'' u
         else if kw_search NEWS_KW t then add_url cats ''news'' u
         else add_url cats ''corporate'' u)"

fun categorize_search_results :: "search_hit list \<Rightarrow> categories \<Rightarrow> py_error + categories" where
  "categorize_search_results [] cats = Inr cats"
| "categorize_search_results (r # rs) cats =
     (case categorize_result r cats of
        Inl e \<Rightarrow> Inl e
      | Inr cats' \<Rightarrow> categorize_search_results rs cats')"

text \<open>The seven keys of the dict that \<open>discover_company_resources\<close> passes, and that dict
  as it is created.\<close>

definition CATEGORY_KEYS :: "string list" where
  "CATEGORY_KEYS =
     [''corporate'', ''linkedin'', ''instagram'', ''twitter'', ''facebook'', ''news'', ''reports'']"

definition fresh_categories :: categories where
  "fresh_categories = map_of (map (\<lambda>k. (k, {})) CATEGORY_KEYS)"

text \<open>
  The rule chain as the specification words it: the category of a hit is that of the
  first rule that matches, LinkedIn domain, Instagram domain, Twitter or X domain,
  Facebook domain, reports keyword in the title, news keyword in the title, otherwise
  corporate; an Instagram URL with \<open>stories\<close> or \<open>reel\<close> in it has no category.
\<close>

definition dropped :: "search_hit \<Rightarrow> bool" where
  "dropped r \<longleftrightarrow>
     \<not> py_in (str ''linkedin.com'') (url r) \<and> py_in (str ''instagram.com'') (url r) \<and>
     (py_in (str ''stories'') (url r) \<or> py_in (str ''reel'') (url r))"

definition category_of :: "search_hit \<Rightarrow> string option" where
  "category_of r =
     (if py_in (str ''linkedin.com'') (url r) then Some ''linkedin''
      else if py_in (str ''instagram.com'') (url r) then
        (if dropped r then None else Some ''instagram'')
      else if py_in (str ''twitter.com'') (url r) \<or> py_in (str ''x.com'') (url r)
        then Some ''twitter''
      else if py_in (str ''facebook.com'') (url r) then Some ''facebook''
      else if kw_search REPORTS_KW (py_lower (title r)) then Some ''reports''
      else if kw_search NEWS_KW (py_lower (title r)) then Some ''news''
      else Some ''corporate'')"

text \<open>The URLs of the hits of a category.\<close>

definition bucket_of :: "search_hit list \<Rightarrow> string \<Rightarrow> pystr set" where
  "bucket_of results name = set (map url (filter (\<lambda>r. category_of r = Some name) results))"

text \<open>The bucket of a category after a run of the categorizer (\<open>None\<close> after an
  exception, or for a name that is not a key).\<close>

definition bucket :: "py_error + categories \<Rightarrow> string \<Rightarrow> pystr set option" where
  "bucket res name = (case res of Inl e \<Rightarrow> None | Inr cats \<Rightarrow> cats name)"

text \<open>The hits of \<open>test_categorize_search_results\<close>, and three more.\<close>

definition test_results :: "search_hit list" where
  "test_results =
     [\<lparr>title = str ''Test Corp'', url = str ''https://linkedin.com/company/test''\<rparr>,
      \<lparr>title = str ''Relat'' @ [243] @ str ''rio Anual'', url = str ''https://example.com/report''\<rparr>,
      \<lparr>title = str ''Grande not'' @ [237] @ str ''cia sobre Test Corp'',
       url = str ''https://news.com/article''\<rparr>,
      \<lparr>title = str ''Site Oficial'', url = str ''https://testcorp.com''\<rparr>]"

definition reel_hit :: search_hit where
  "reel_hit = \<lparr>title = str ''Test Corp'', url = str ''https://instagram.com/reel/testcorp''\<rparr>"

definition report_hit :: search_hit where
  "report_hit = \<lparr>title = str ''Test Corp annual report'', url = str ''https://testcorp.com/ir''\<rparr>"

definition news_hit :: search_hit where
  "news_hit = \<lparr>title = str ''Test Corp news'', url = str ''https://testcorp.com/ir''\<rparr>"

section \<open>Content Selector (\<open>app/utils/extraction.py\<close>)\<close>

text \<open>
  \<open>AUM_KEYWORDS\<close> is an alternation of literals, searched in the lower-cased text.
\<close>

definition AUM_KEYWORDS :: "pystr list" where
  "AUM_KEYWORDS =
     [str ''aum'', str ''assets under management'',
      str ''patrim'' @ [244] @ str ''nio sob gest'' @ [227] @ str ''o'',
      str ''sob gest'' @ [227] @ str ''o'', str ''ativos sob gest'' @ [227] @ str ''o'',
      str ''recursos sob gest'' @ [227] @ str ''o'']"

text \<open>
  \<open>MONETARY_VALUE_REGEX\<close> has classes and repetitions, so it is a regular expression
  proper. \<open>re.search\<close> is used for its truth value only: it holds when some substring
  matches, which is decided by derivatives. A character class is a literal character
  (compared without case, for \<open>re.IGNORECASE\<close>), \<open>\d\<close>, \<open>\w\<close> or a bracket of characters.
\<close>

datatype cclass = Ch nat | Digit | Word | Among "nat list"

fun in_class :: "cclass \<Rightarrow> nat \<Rightarrow> bool" where
  "in_class (Ch a) c = (lower_char c = lower_char a)"
| "in_class Digit c = is_decimal c"
| "in_class Word c = (is_alpha_char c \<or> py_isdigit c \<or> c = 95 \<or> (188 \<le> c \<and> c \<le> 190))"
| "in_class (Among cs) c = (c \<in> set cs)"

datatype rx = Null | Eps | Sym cclass | Seq rx rx | Alt rx rx | Star rx

fun nullable :: "rx \<Rightarrow> bool" where
  "nullable Null = False"
| "nullable Eps = True"
| "nullable (Sym a) = False"
| "nullable (Seq r s) = (nullable r \<and> nullable s)"
| "nullable (Alt r s) = (nullable r \<or> nullable s)"
| "nullable (Star r) = True"

fun deriv :: "nat \<Rightarrow> rx \<Rightarrow> rx" where
  "deriv c Null = Null"
| "deriv c Eps = Null"
| "deriv c (Sym a) = (if in_class a c then Eps else Null)"
| "deriv c (Seq r s) =
     (if nullable r then Alt (Seq (deriv c r) s) (deriv c s) else Seq (deriv c r) s)"
| "deriv c (Alt r s) = Alt (deriv c r) (deriv c s)"
| "deriv c (Star r) = Seq (deriv c r) (Star r)"

text \<open>Some prefix of the text matches; some substring of the text matches.\<close>

fun rx_match_prefix :: "rx \<Rightarrow> pystr \<Rightarrow> bool" where
  "rx_match_prefix r [] = nullable r"
| "rx_match_prefix r (c # cs) = (nullable r \<or> rx_match_prefix (deriv c r) cs)"

fun rx_search :: "rx \<Rightarrow> pystr \<Rightarrow> bool" where
  "rx_search r [] = nullable r"
| "rx_search r (c # cs) = (rx_match_prefix r (c # cs) \<or> rx_search r cs)"

definition Plus :: "rx \<Rightarrow> rx" where
  "Plus r = Seq r (Star r)"

definition Opt :: "rx \<Rightarrow> rx" where
  "Opt r = Alt r Eps"

definition lit :: "pystr \<Rightarrow> rx" where
  "lit s = foldr (\<lambda>c r. Seq (Sym (Ch c)) r) s Eps"

text \<open>\<open>((R\$|US\$) ?\d+[,.]\d+ ?\w+)\<close>\<close>

definition MONETARY_VALUE_REGEX :: rx where
  "MONETARY_VALUE_REGEX =
     Seq (Alt (lit (str ''R$'')) (lit (str ''US$'')))
       (Seq (Opt (Sym (Ch 32)))
         (Seq (Plus (Sym Digit))
           (Seq (Sym (Among [44, 46]))
             (Seq (Plus (Sym Digit))
               (Seq (Opt (Sym (Ch 32))) (Plus (Sym Word)))))))"

definition MAX_TOKENS :: nat where
  "MAX_TOKENS = 1350"

definition sanitize_paragraph :: "pystr \<Rightarrow> pystr" where
  "sanitize_paragraph p = join [10] (filter (\<lambda>line. line \<noteq> []) (map strip (splitlines p)))"

text \<open>The test of the loop: the paragraph, lower-cased, has a keyword or a monetary value.\<close>

definition relevant :: "pystr \<Rightarrow> bool" where
  "relevant paragraph \<longleftrightarrow>
     (let p_lower = py_lower paragraph
      in kw_search AUM_KEYWORDS p_lower \<or> rx_search MONETARY_VALUE_REGEX p_lower)"

text \<open>
  The loop of \<open>extract_relevant_chunks\<close> over the paragraphs that are left, with
  \<open>total_tokens\<close> so far; the result is what is appended to \<open>relevant_chunks\<close> from here
  on. \<open>n_tokens s\<close> stands for \<open>len(encoding.encode(s))\<close>: the tokenizer is a capability
  outside the repository.
\<close>

fun select_chunks :: "(pystr \<Rightarrow> nat) \<Rightarrow> nat \<Rightarrow> pystr list \<Rightarrow> pystr list" where
  "select_chunks n_tokens total_tokens [] = []"
| "select_chunks n_tokens total_tokens (paragraph # rest) =
     (if relevant paragraph then
        (let sanitized_paragraph = sanitize_paragraph paragraph;
             chunk_tokens = n_tokens sanitized_paragraph
         in if total_tokens + chunk_tokens \<le> MAX_TOKENS
            then sanitized_paragraph # select_chunks n_tokens (total_tokens + chunk_tokens) rest
            else [])
      else select_chunks n_tokens total_tokens rest)"

text \<open>
  \<open>find_all_text html\<close> stands for the texts of the \<open>p\<close> and \<open>span\<close> tags that
  BeautifulSoup finds in the markup, in document order.
\<close>

definition extract_relevant_chunks ::
  "(pystr \<Rightarrow> pystr list) \<Rightarrow> (pystr \<Rightarrow> nat) \<Rightarrow> pystr \<Rightarrow> pystr" where
  "extract_relevant_chunks find_all_text n_tokens html_content =
     (if html_content = [] then []
      else
        let relevant_chunks = select_chunks n_tokens 0 (find_all_text html_content)
        in if relevant_chunks = [] then [] else join [10] relevant_chunks)"

text \<open>The matching fragments of a markup, in order, as the budget sees them.\<close>

definition matching_fragments :: "(pystr \<Rightarrow> pystr list) \<Rightarrow> pystr \<Rightarrow> pystr list" where
  "matching_fragments find_all_text html_content =
     map sanitize_paragraph (filter relevant (find_all_text html_content))"

text \<open>
  The three paragraphs of \<open>test_extract_relevant_chunks_respects_token_limit\<close>, a parser
  that finds them, and a tokenizer that counts 1000, 400 and 100 tokens for them.
\<close>

definition chunk_a :: pystr where
  "chunk_a = str ''AUM: 1 bilh'' @ [227] @ str ''o''"

definition chunk_b :: pystr where
  "chunk_b = str ''AUM: 2 bilh'' @ [245] @ str ''es''"

definition chunk_c :: pystr where
  "chunk_c = str ''AUM: 3 bilh'' @ [245] @ str ''es''"

definition three_paragraphs :: "pystr \<Rightarrow> pystr list" where
  "three_paragraphs html_content = [chunk_a, chunk_b, chunk_c]"

definition stub_tokens :: "pystr \<Rightarrow> nat" where
  "stub_tokens s = (if s = chunk_a then 1000 else if s = chunk_b then 400 else 100)"

section \<open>Scrape Orchestrator (\<open>app/services/scraping.py\<close>)\<close>

text \<open>
  The browser is a capability outside the repository. \<open>fetch url category\<close> stands for
  everything \<open>scrape_single_url\<close> does inside its \<open>try\<close> (navigation, the scrolling
  of the social categories, reading the page source): the markup (\<open>Inr\<close>), or the text
  \<open>str(e)\<close> of the exception raised on the way (\<open>Inl\<close>).
\<close>

type_synonym fetcher = "pystr \<Rightarrow> string \<Rightarrow> pystr + pystr"

definition scrape_single_url ::
  "fetcher \<Rightarrow> pystr \<Rightarrow> string \<Rightarrow> int \<Rightarrow> pystr option \<times> ScrapeLog" where
  "scrape_single_url fetch u category cid =
     (let log_entry = \<lparr>log_company_id = cid, log_url = u, status = ''PENDING'',
                        content_length = None, error_msg = None\<rparr>
      in case fetch u category of
           Inr content \<Rightarrow>
             (Some content,
              log_entry\<lparr>status := ''SUCCESS'', content_length := Some (length content)\<rparr>)
         | Inl error \<Rightarrow>
             (None,
              log_entry\<lparr>status := ''FAILED'', error_msg := Some error,
                content_length := Some (length error)\<rparr>))"

record scrape_item =
  item_url :: pystr
  item_category :: string

record scraped_page =
  page_url :: pystr
  page_category :: string
  page_content :: pystr

definition priority_order :: "string list" where
  "priority_order =
     [''reports'', ''corporate'', ''news'', ''linkedin'', ''facebook'', ''instagram'', ''twitter'']"

text \<open>
  The queue. The discovered URLs are a dict of sets; each set is given as the list of
  its elements in the order the \<open>for\<close> loop meets them.
\<close>

definition urls_to_scrape :: "(string \<rightharpoonup> pystr list) \<Rightarrow> scrape_item list" where
  "urls_to_scrape discovered_urls =
     concat (map (\<lambda>category.
        map (\<lambda>u. \<lparr>item_url = u, item_category = category\<rparr>)
          (case discovered_urls category of None \<Rightarrow> [] | Some urls \<Rightarrow> urls))
        priority_order)"

text \<open>
  One unit, \<open>scrape_content\<close>, as it changes the two lists it appends to. Between the
  fetch and the two appends the unit does not yield, so a unit's appends are not
  interleaved with another's.
\<close>

definition scrape_content ::
  "fetcher \<Rightarrow> int \<Rightarrow> scraped_page list \<times> ScrapeLog list \<Rightarrow> scrape_item \<Rightarrow>
   scraped_page list \<times> ScrapeLog list" where
  "scrape_content fetch cid acc item =
     (case acc of (scraped_content, logs_to_add) \<Rightarrow>
        if item_url item \<noteq> [] then
          (case scrape_single_url fetch (item_url item) (item_category item) cid of
             (content, log_entry) \<Rightarrow>
               (if content \<noteq> None \<and> content \<noteq> Some []
                then scraped_content @
                       [\<lparr>page_url = item_url item, page_category = item_category item,
                         page_content = the content\<rparr>]
                else scraped_content,
                logs_to_add @ [log_entry]))
        else (scraped_content, logs_to_add))"

text \<open>
  \<open>scrape_discovered_urls\<close>. The units run concurrently, so the order in which they
  append is not that of the queue: \<open>finished\<close> is the queue in the order the units
  finish. The logs are committed in one batch at the end.
\<close>

definition scrape_discovered_urls ::
  "fetcher \<Rightarrow> scrape_item list \<Rightarrow> int \<Rightarrow> database \<Rightarrow> scraped_page list \<times> database" where
  "scrape_discovered_urls fetch finished cid db =
     (case foldl (scrape_content fetch cid) ([], []) finished of
        (scraped_content, logs_to_add) \<Rightarrow>
          (scraped_content, db\<lparr>scrape_logs := scrape_logs db @ logs_to_add\<rparr>))"

text \<open>
  What the specification says of one attempt: the log entry of a fetch, and the page it
  returns when the fetch succeeds with markup that is not empty.
\<close>

definition attempt_log :: "fetcher \<Rightarrow> int \<Rightarrow> scrape_item \<Rightarrow> ScrapeLog" where
  "attempt_log fetch cid item =
     (case fetch (item_url item) (item_category item) of
        Inr content \<Rightarrow>
          \<lparr>log_company_id = cid, log_url = item_url item, status = ''SUCCESS'',
           content_length = Some (length content), error_msg = None\<rparr>
      | Inl error \<Rightarrow>
          \<lparr>log_company_id = cid, log_url = item_url item, status = ''FAILED'',
           content_length = Some (length error), error_msg = Some error\<rparr>)"

definition attempted :: "scrape_item \<Rightarrow> bool" where
  "attempted item \<longleftrightarrow> item_url item \<noteq> []"

definition fetched_content :: "fetcher \<Rightarrow> scrape_item \<Rightarrow> pystr option" where
  "fetched_content fetch item =
     (case fetch (item_url item) (item_category item) of
        Inr content \<Rightarrow> Some content | Inl error \<Rightarrow> None)"

definition returned_page :: "fetcher \<Rightarrow> scrape_item \<Rightarrow> scraped_page" where
  "returned_page fetch item =
     \<lparr>page_url = item_url item, page_category = item_category item,
      page_content = the (fetched_content fetch item)\<rparr>"

definition returned :: "fetcher \<Rightarrow> scrape_item \<Rightarrow> bool" where
  "returned fetch item \<longleftrightarrow>
     attempted item \<and> fetched_content fetch item \<noteq> None \<and> fetched_content fetch item \<noteq> Some []"

text \<open>
  Test data: a corporate page that loads, a report whose navigation times out, the queue
  met in the opposite order, and a browser that returns an empty page source.
\<close>

definition test_discovered :: "string \<rightharpoonup> pystr list" where
  "test_discovered =
     [''corporate'' \<mapsto> [str ''https://testcorp.com''],
      ''reports'' \<mapsto> [str ''https://testcorp.com/reports'']]"

definition test_fetch :: fetcher where
  "test_fetch u category =
     (if u = str ''https://testcorp.com'' then Inr (str ''<html>Corporate content</html>'')
      else Inl (str ''Page timeout''))"

definition test_finished :: "scrape_item list" where
  "test_finished =
     [\<lparr>item_url = str ''https://testcorp.com'', item_category = ''corporate''\<rparr>,
      \<lparr>item_url = str ''https://testcorp.com/reports'', item_category = ''reports''\<rparr>]"

definition blank_fetch :: fetcher where
  "blank_fetch u category = Inr []"

section \<open>Discovery Engine: saving the links (\<open>app/services/discovery.py\<close>)\<close>

text \<open>
  The last part of \<open>discover_company_resources\<close>, from the loop over
  \<open>discovered_urls.items()\<close> to the commit. \<open>items\<close> is the sequence of platform and URL
  the two nested loops meet.

  The session is made with \<open>autoflush=False\<close>, so the \<open>select\<close> of the loop reads the
  committed rows only, not the rows added earlier in the loop. \<open>scalar_one_or_none\<close>
  raises when more than one row is selected. At the commit the pending rows are inserted
  in the order they were added; the column \<open>url\<close> of \<open>company_links\<close> is declared
  \<open>unique=True\<close>, so inserting a row whose URL is in the table raises \<open>IntegrityError\<close>,
  and the transaction leaves the table as it was.
\<close>

definition scalar_one_or_none :: "'a list \<Rightarrow> py_error + 'a option" where
  "scalar_one_or_none rows =
     (case rows of
        [] \<Rightarrow> Inr None
      | [r] \<Rightarrow> Inr (Some r)
      | r # r' # rs \<Rightarrow> Inl MultipleResultsFound)"

fun add_new_links ::
  "int \<Rightarrow> database \<Rightarrow> (string \<times> pystr) list \<Rightarrow> CompanyLink list \<Rightarrow>
   py_error + CompanyLink list" where
  "add_new_links cid db [] pending = Inr pending"
| "add_new_links cid db ((plat, u) # rest) pending =
     (case scalar_one_or_none (filter (\<lambda>l. link_url l = u) (company_links db)) of
        Inl e \<Rightarrow> Inl e
      | Inr None \<Rightarrow>
          add_new_links cid db rest
            (pending @ [\<lparr>link_company_id = cid, platform = plat, link_url = u\<rparr>])
      | Inr (Some existing_link) \<Rightarrow> add_new_links cid db rest pending)"

fun insert_links :: "CompanyLink list \<Rightarrow> CompanyLink list \<Rightarrow> py_error + CompanyLink list" where
  "insert_links table [] = Inr table"
| "insert_links table (row # rows) =
     (if link_url row \<in> set (map link_url table) then Inl IntegrityError
      else insert_links (table @ [row]) rows)"

definition commit_links :: "database \<Rightarrow> CompanyLink list \<Rightarrow> py_error option \<times> database" where
  "commit_links db pending =
     (case insert_links (company_links db) pending of
        Inl e \<Rightarrow> (Some e, db)
      | Inr table \<Rightarrow> (None, db\<lparr>company_links := table\<rparr>))"

definition save_company_links ::
  "int \<Rightarrow> (string \<times> pystr) list \<Rightarrow> database \<Rightarrow> py_error option \<times> database" where
  "save_company_links cid items db =
     (case add_new_links cid db items [] of
        Inl e \<Rightarrow> (Some e, db)
      | Inr pending \<Rightarrow> commit_links db pending)"

text \<open>Test data: two companies that discover the same URL.\<close>

definition test_links :: "(string \<times> pystr) list" where
  "test_links =
     [(''corporate'', str ''https://testcorp.com''),
      (''linkedin'', str ''https://linkedin.com/company/test'')]"

definition other_links :: "(string \<times> pystr) list" where
  "other_links =
     [(''linkedin'', str ''https://linkedin.com/company/test''),
      (''corporate'', str ''https://testcorp.com'')]"

text \<open>The row the loop adds for an item, and the test it makes: no committed row has the URL.\<close>

definition new_link :: "int \<Rightarrow> string \<times> pystr \<Rightarrow> CompanyLink" where
  "new_link cid item = \<lparr>link_company_id = cid, platform = fst item, link_url = snd item\<rparr>"

definition unseen :: "database \<Rightarrow> string \<times> pystr \<Rightarrow> bool" where
  "unseen db item \<longleftrightarrow> snd item \<notin> set (map link_url (company_links db))"

section \<open>The concurrency limiters\<close>

text \<open>
  \<open>discover_company_resources\<close> and \<open>scrape_discovered_urls\<close> each create an
  \<open>asyncio.Semaphore(4)\<close> and run every unit (\<open>search_and_process\<close>,
  \<open>scrape_content\<close>) wholly inside \<open>async with semaphore\<close>. A unit is \<open>Waiting\<close>
  until it has acquired the semaphore, \<open>In_flight\<close> inside the block and \<open>Finished\<close>
  once it has left it, by return or by exception. The semaphore lets a unit in only while
  its value is positive, and counts it down; leaving the block counts it up.
\<close>

datatype unit_state = Waiting | In_flight | Finished

record limiter =
  sem_value :: nat
  units :: "unit_state list"

definition new_limiter :: "nat \<Rightarrow> limiter" where
  "new_limiter n = \<lparr>sem_value = 4, units = replicate n Waiting\<rparr>"

definition enter :: "nat \<Rightarrow> limiter \<Rightarrow> limiter option" where
  "enter i p =
     (if i < length (units p) \<and> units p ! i = Waiting \<and> 0 < sem_value p
      then Some (p\<lparr>sem_value := sem_value p - 1, units := (units p)[i := In_flight]\<rparr>)
      else None)"

definition leave :: "nat \<Rightarrow> limiter \<Rightarrow> limiter option" where
  "leave i p =
     (if i < length (units p) \<and> units p ! i = In_flight
      then Some (p\<lparr>sem_value := sem_value p + 1, units := (units p)[i := Finished]\<rparr>)
      else None)"

definition in_flight :: "limiter \<Rightarrow> nat" where
  "in_flight p = length (filter (\<lambda>s. s = In_flight) (units p))"

text \<open>
  One pipeline run (\<open>process_company\<close>): the eight searches of discovery under one
  semaphore, then the fetches of the scrape orchestrator under another. The scrape
  phase is awaited after discovery, so a fetch unit starts only when every search unit
  has finished. A run is driven by the events the scheduler lets happen; an event that
  cannot happen in a state gives \<open>None\<close>.
\<close>

record pipeline_run =
  discovery :: limiter
  scraping :: limiter

datatype event = Search_enters nat | Search_leaves nat | Fetch_enters nat | Fetch_leaves nat

definition start_run :: "nat \<Rightarrow> pipeline_run" where
  "start_run n_urls = \<lparr>discovery = new_limiter 8, scraping = new_limiter n_urls\<rparr>"

fun fire :: "event \<Rightarrow> pipeline_run \<Rightarrow> pipeline_run option" where
  "fire (Search_enters i) r = map_option (\<lambda>p. r\<lparr>discovery := p\<rparr>) (enter i (discovery r))"
| "fire (Search_leaves i) r = map_option (\<lambda>p. r\<lparr>discovery := p\<rparr>) (leave i (discovery r))"
| "fire (Fetch_enters i) r =
     (if list_all (\<lambda>s. s = Finished) (units (discovery r))
      then map_option (\<lambda>p. r\<lparr>scraping := p\<rparr>) (enter i (scraping r)) else None)"
| "fire (Fetch_leaves i) r = map_option (\<lambda>p. r\<lparr>scraping := p\<rparr>) (leave i (scraping r))"

fun run_events :: "event list \<Rightarrow> pipeline_run \<Rightarrow> pipeline_run option" where
  "run_events [] r = Some r"
| "run_events (e # es) r = (case fire e r of None \<Rightarrow> None | Some r' \<Rightarrow> run_events es r')"

text \<open>The invariant of a limiter: the value of the semaphore and the units in flight add up to 4.\<close>

definition balanced :: "limiter \<Rightarrow> bool" where
  "balanced p \<longleftrightarrow> sem_value p + in_flight p = 4"

section \<open>Evaluation lemmas\<close>

lemma floor_rat_numeral_div:
  "\<lfloor>numeral a / numeral b :: rat\<rfloor> = numeral a div numeral b"
  using floor_divide_of_int_eq [of "numeral a" "numeral b", where ?'a = rat] by simp

lemma ceiling_rat_numeral_div:
  "\<lceil>numeral a / numeral b :: rat\<rceil> = - (- numeral a div numeral b)"
  using ceiling_divide_eq_div [of "numeral a" "numeral b", where ?'a = rat] by simp

lemmas float_eval =
  dbl_round_def round_half_even_def floor_log2_def compute_floorlog pow2_def Let_def
  floor_rat_numeral_div ceiling_rat_numeral_div

lemmas string_eval =
  str_def py_lower_def py_upper_def lower_char_def upper_char_def is_upper_char_def
  is_lower_char_def is_alpha_char_def py_isalpha_def py_isspace_def py_isdigit_def
  is_decimal_def
  strip_def lstrip_def replace_char_def splitlines_def is_linebreak_def

lemmas normalize_eval =
  normalize_aum_value_def clean_text_def COIN_SYMBOL_RE_def MULTIPLIERS_def re_sub.simps
  number_part_str_def multiplier_part_str_def is_number_char_def py_float_def digits_value_def

lemmas agent_eval =
  extract_aum_def store_response_def log_usage_def add_snapshot_def NAO_DISPONIVEL_def
  UNIT_RE_def empty_db_def

lemma py_in_sublist: "py_in sub s \<longleftrightarrow> sublist sub s"
  by (induction s) (auto simp: sublist_Cons_right)

section \<open>Value Normalizer: the fixtures\<close>

lemma fixture_1: "normalize_aum_value (str ''R$ 2,3 bi'') = Some (Finite 2300000000)"
  by (simp add: normalize_eval string_eval float_eval)

lemma fixture_2: "normalize_aum_value (str ''$500 million'') = Some (Finite 500000000)"
  by (simp add: normalize_eval string_eval float_eval)

lemma fixture_3:
  "normalize_aum_value (str ''1.5 trilh'' @ [227] @ str ''o'') = Some (Finite 1500000000000)"
  by (simp add: normalize_eval string_eval float_eval)

lemma fixture_4: "normalize_aum_value (str ''US$ 100,5 mil'') = Some (Finite 100500)"
  by (simp add: normalize_eval string_eval float_eval)

lemma fixture_5:
  "normalize_aum_value ([8364] @ str '' 123.456,78'') = Some (Finite (4241942660555735 / 2 ^ 35))"
  by (simp add: normalize_eval string_eval float_eval)

lemma literal_5: "dbl_round (12345678 / 100) = Finite (4241942660555735 / 2 ^ 35)"
  by (simp add: float_eval)

lemma fixture_6: "normalize_aum_value (str ''25b'') = Some (Finite 25000000000)"
  by (simp add: normalize_eval string_eval float_eval)

lemma fixture_7: "normalize_aum_value (str ''Invalid Text'') = None"
  by (simp add: normalize_eval string_eval float_eval)

lemma clean_1: "clean_text (str ''R$ 2,3 bi'') = str ''2.3bi''"
  by (simp add: normalize_eval string_eval)

lemma clean_4: "clean_text (str ''US$ 100,5 mil'') = str ''100.5mil''"
  by (simp add: normalize_eval string_eval)

lemma clean_5: "clean_text ([8364] @ str '' 123.456,78'') = str ''123456.78''"
  by (simp add: normalize_eval string_eval)

text \<open>
  C1. On the fixtures of the test suite \<open>normalize_aum_value\<close> returns the listed
  floats: \<open>"R$ 2,3 bi"\<close> gives \<open>2.3e9\<close>, \<open>"$500 million"\<close> gives \<open>5.0e8\<close>,
  \<open>"1.5 trilh(a-tilde)o"\<close> gives \<open>1.5e12\<close>, \<open>"US$ 100,5 mil"\<close> gives \<open>1.005e5\<close>,
  \<open>"\<euro> 123.456,78"\<close> gives the float the literal \<open>123456.78\<close> denotes (the decimal
  rounded to binary64), \<open>"25b"\<close> gives \<open>2.5e10\<close>, and \<open>"Invalid Text"\<close> gives
  \<open>None\<close>. The currency symbols and the white space are gone from the text before it is
  split into number and multiplier.
\<close>

theorem normalize_aum_value_fixtures:
  "normalize_aum_value (str ''R$ 2,3 bi'') = Some (Finite 2300000000) \<and>
   normalize_aum_value (str ''$500 million'') = Some (Finite 500000000) \<and>
   normalize_aum_value (str ''1.5 trilh'' @ [227] @ str ''o'') = Some (Finite 1500000000000) \<and>
   normalize_aum_value (str ''US$ 100,5 mil'') = Some (Finite 100500) \<and>
   normalize_aum_value ([8364] @ str '' 123.456,78'') = Some (dbl_round (12345678 / 100)) \<and>
   normalize_aum_value (str ''25b'') = Some (Finite 25000000000) \<and>
   normalize_aum_value (str ''Invalid Text'') = None \<and>
   clean_text (str ''R$ 2,3 bi'') = str ''2.3bi'' \<and>
   clean_text (str ''US$ 100,5 mil'') = str ''100.5mil'' \<and>
   clean_text ([8364] @ str '' 123.456,78'') = str ''123456.78''"
  by (simp only: fixture_1 fixture_2 fixture_3 fixture_4 fixture_5 literal_5 fixture_6
      fixture_7 clean_1 clean_4 clean_5 simp_thms)

section \<open>Extraction Agent: what is persisted\<close>

lemma splitlines_from_sublist:
  "x \<in> set (splitlines_from cur s) \<Longrightarrow> sublist x (cur @ s)"
proof (induction cur s rule: splitlines_from.induct)
  case (1 cur)
  then show ?case by (auto split: if_splits)
next
  case (2 cur c)
  then show ?case by (auto split: if_splits)
next
  case (3 cur c d cs)
  show ?case
  proof (cases "c = 13 \<and> d = 10")
    case True
    with 3 have "x = cur \<or> sublist x cs" by auto
    then show ?thesis
    proof
      assume "x = cur" then show ?thesis by simp
    next
      assume "sublist x cs"
      then have "sublist x ((cur @ [c, d]) @ cs)"
        by (meson sublist_order.order.trans sublist_append_leftI)
      then show ?thesis by simp
    qed
  next
    case False
    note crlf = this
    show ?thesis
    proof (cases "is_linebreak c")
      case True
      with crlf 3 have "x = cur \<or> sublist x (d # cs)" by auto
      then show ?thesis
      proof
        assume "x = cur" then show ?thesis by simp
      next
        assume "sublist x (d # cs)"
        then have "sublist x ((cur @ [c]) @ d # cs)"
          by (meson sublist_order.order.trans sublist_append_leftI)
        then show ?thesis by simp
      qed
    next
      case False
      with crlf 3 show ?thesis by auto
    qed
  qed
qed

lemma splitlines_sublist: "x \<in> set (splitlines s) \<Longrightarrow> sublist x s"
  using splitlines_from_sublist [of x "[]" s] by (simp add: splitlines_def)

lemma upper_sentinel: "py_upper NAO_DISPONIVEL = NAO_DISPONIVEL"
  by (simp add: NAO_DISPONIVEL_def string_eval)

lemma normalize_sentinel: "normalize_aum_value NAO_DISPONIVEL = None"
  by (simp add: NAO_DISPONIVEL_def normalize_eval string_eval float_eval)

lemma line_not_sentinel:
  assumes "\<not> py_in NAO_DISPONIVEL (py_upper t)" and "x \<in> set (splitlines t)"
  shows "x \<noteq> NAO_DISPONIVEL"
proof
  assume "x = NAO_DISPONIVEL"
  with assms(2) have "sublist NAO_DISPONIVEL t" by (simp add: splitlines_sublist)
  then have "sublist (py_upper NAO_DISPONIVEL) (py_upper t)"
    unfolding py_upper_def by (rule map_mono_sublist)
  with assms(1) show False by (simp add: upper_sentinel py_in_sublist)
qed

lemma unit_search_empty: "re_search UNIT_RE raw = Some []"
  by (cases raw) (simp_all add: UNIT_RE_def py_lower_def)

lemma normalize_500:
  "normalize_aum_value [82, 36, 32, 53, 48, 48, 32, 109, 105, 108, 104, 245, 101, 115] =
     Some (Finite 500000000)"
  by (simp add: normalize_eval string_eval float_eval)

lemma normalize_zero: "normalize_aum_value [48] = Some (Finite 0)"
  by (simp add: normalize_eval string_eval float_eval)

lemma e2e_eval:
  "extract_aum 1 (Inr (str ''R$ 500 milh'' @ [245] @ str ''es'' @ [10, 10] @
       str ''Fonte: https://fake.url/report'', 125)) empty_db =
   (None, empty_db\<lparr>
      aum_snapshots := [\<lparr>company_id = 1, aum_value = str ''R$ 500 milh'' @ [245] @ str ''es'',
        aum_unit = Some [], standardized_value = Some 500000000,
        source_url = Some (str ''https://fake.url/report'')\<rparr>],
      usage := [\<lparr>usage_company_id = Some 1, operation_type = ''aum_extraction'', tokens_used = 125\<rparr>]\<rparr>)"
  by (simp add: agent_eval string_eval normalize_500 py_in_sublist sublist_code)

text \<open>
  C4. Whatever the provider answers, \<open>extract_aum\<close> persists at most one snapshot, and
  a snapshot it persists has a null \<open>standardized_value\<close> if and only if its raw value
  fails normalization or is the not-available sentinel; a sentinel snapshot has null
  unit, standardized value and source URL.
\<close>

theorem snapshot_nullability:
  assumes "extract_aum cid response db = (err, db')"
  shows "aum_snapshots db' = aum_snapshots db \<or>
         (\<exists>snap. aum_snapshots db' = aum_snapshots db @ [snap] \<and> snapshot_nullable snap)"
proof (cases response)
  case (Inl e)
  with assms show ?thesis by (simp add: extract_aum_def)
next
  case (Inr p)
  obtain content tokens where p: "p = (content, tokens)" by (cases p)
  define t where "t = strip content"
  define db1 where "db1 = log_usage db cid ''aum_extraction'' tokens"
  have db1: "aum_snapshots db1 = aum_snapshots db" by (simp add: db1_def log_usage_def)
  from assms Inr p have s: "store_response cid t db1 = (err, db')"
    by (simp add: extract_aum_def t_def db1_def)
  show ?thesis
  proof (cases "py_in NAO_DISPONIVEL (py_upper t)")
    case True
    with s db1 show ?thesis
      by (auto simp: store_response_def add_snapshot_def snapshot_nullable_def normalize_sentinel)
  next
    case False
    show ?thesis
    proof (cases "\<exists>raw e src. splitlines t = [raw, e, src]")
      case True
      then obtain raw e src where l: "splitlines t = [raw, e, src]" by blast
      then have "raw \<in> set (splitlines t)" by simp
      with False have raw: "raw \<noteq> NAO_DISPONIVEL" by (rule line_not_sentinel)
      from s False l db1 raw show ?thesis
        by (auto simp: store_response_def add_snapshot_def snapshot_nullable_def Let_def
                 split: option.splits if_splits)
    next
      case False
      with s \<open>\<not> py_in NAO_DISPONIVEL (py_upper t)\<close> db1 show ?thesis
        by (auto simp: store_response_def split: list.splits)
    qed
  qed
qed

text \<open>The rule at the response of the end-to-end test, where a snapshot is persisted.\<close>

theorem snapshot_nullability_witness:
  "extract_aum 1 (Inr (str ''R$ 500 milh'' @ [245] @ str ''es'' @ [10, 10] @
       str ''Fonte: https://fake.url/report'', 125)) empty_db =
   (None, empty_db\<lparr>
      aum_snapshots := [\<lparr>company_id = 1, aum_value = str ''R$ 500 milh'' @ [245] @ str ''es'',
        aum_unit = Some [], standardized_value = Some 500000000,
        source_url = Some (str ''https://fake.url/report'')\<rparr>],
      usage := [\<lparr>usage_company_id = Some 1, operation_type = ''aum_extraction'', tokens_used = 125\<rparr>]\<rparr>) \<and>
   snapshot_nullable \<lparr>company_id = 1, aum_value = str ''R$ 500 milh'' @ [245] @ str ''es'',
        aum_unit = Some [], standardized_value = Some 500000000,
        source_url = Some (str ''https://fake.url/report'')\<rparr>"
  using snapshot_nullability [OF e2e_eval] e2e_eval by (simp add: empty_db_def)

lemma sentinel_eval:
  "extract_aum 1 (Inr (str ''nao_disponivel'', 30)) empty_db =
   (None, empty_db\<lparr>
      aum_snapshots := [\<lparr>company_id = 1, aum_value = str ''NAO_DISPONIVEL'',
        aum_unit = None, standardized_value = None, source_url = None\<rparr>],
      usage := [\<lparr>usage_company_id = Some 1, operation_type = ''aum_extraction'', tokens_used = 30\<rparr>]\<rparr>)"
  by (simp add: agent_eval string_eval py_in_sublist sublist_code)

text \<open>
  C3. A three-line response whose first line is \<open>"0"\<close>: the normalizer returns the
  number \<open>0.0\<close>, yet \<open>extract_aum\<close> persists no snapshot, because it tests the truth
  value of the float and \<open>0.0\<close> is false. Only the usage row is written.
\<close>

theorem extract_aum_zero_value:
  "normalize_aum_value (str ''0'') = Some (Finite 0) \<and>
   extract_aum 1 (Inr (str ''0'' @ [10, 10] @ str ''Fonte: https://fake.url/report'', 125)) empty_db =
   (None, empty_db\<lparr>usage :=
      [\<lparr>usage_company_id = Some 1, operation_type = ''aum_extraction'', tokens_used = 125\<rparr>]\<rparr>)"
  by (simp add: agent_eval string_eval normalize_zero py_in_sublist sublist_code)

text \<open>
  C8. A source line \<open>"Fonte: telnet://fake.url/report"\<close>: \<open>lstrip("Fonte: ")\<close> removes
  every leading character that occurs in the label, so the \<open>t\<close> and the \<open>e\<close> of the URL
  go with it and the snapshot's source is \<open>"lnet://fake.url/report"\<close>.
\<close>

theorem source_url_lstrip:
  "map source_url (aum_snapshots (snd (extract_aum 1
      (Inr (str ''R$ 500 milh'' @ [245] @ str ''es'' @ [10, 10] @
            str ''Fonte: telnet://fake.url/report'', 125)) empty_db))) =
   [Some (str ''lnet://fake.url/report'')]"
  by (simp add: agent_eval string_eval normalize_500 py_in_sublist sublist_code)

text \<open>
  C9. At the response of the end-to-end test, whose raw value starts with \<open>R$\<close>, the
  persisted unit is the empty string: the first alternative of the unit pattern is empty
  and matches at the first position of every raw value, so neither a symbol nor
  \<open>"USD"\<close> is ever stored.
\<close>

theorem unit_always_empty:
  "map aum_unit (aum_snapshots (snd (extract_aum 1
      (Inr (str ''R$ 500 milh'' @ [245] @ str ''es'' @ [10, 10] @
            str ''Fonte: https://fake.url/report'', 125)) empty_db))) = [Some []] \<and>
   re_search UNIT_RE raw_value = Some []"
  using e2e_eval by (simp add: unit_search_empty)

text \<open>
  What a three-line response without the sentinel persists, in general: one snapshot when
  the normalized value is a finite float other than zero, and nothing when normalization
  fails, when the value is zero, and when it is infinite (then \<open>int\<close> raises).
\<close>

lemma store_response_three_lines:
  assumes "\<not> py_in NAO_DISPONIVEL (py_upper t)" and "splitlines t = [raw, e, src]"
  shows "aum_snapshots (snd (store_response cid t db)) =
     (case normalize_aum_value raw of
        None \<Rightarrow> aum_snapshots db
      | Some Infinity \<Rightarrow> aum_snapshots db
      | Some (Finite q) \<Rightarrow>
          if q = 0 then aum_snapshots db
          else aum_snapshots db @
            [\<lparr>company_id = cid, aum_value = raw, aum_unit = Some [],
              standardized_value = Some (if 0 \<le> q then \<lfloor>q\<rfloor> else \<lceil>q\<rceil>),
              source_url = Some (lstrip (str ''Fonte: '') src)\<rparr>])"
  using assms
  by (simp add: store_response_def add_snapshot_def unit_search_empty
      split: option.splits pyfloat.splits)

section \<open>Discovery Engine: the buckets of the categorizer\<close>

lemma category_of_key: "category_of r = Some k \<Longrightarrow> k \<in> set CATEGORY_KEYS"
  by (auto simp: category_of_def CATEGORY_KEYS_def split: if_splits)

lemma categorize_result_eq:
  assumes "set CATEGORY_KEYS \<subseteq> dom cats"
  shows "categorize_result r cats =
     Inr (case category_of r of None \<Rightarrow> cats
          | Some k \<Rightarrow> cats(k \<mapsto> insert (url r) (the (cats k))))"
proof -
  have "\<And>k. k \<in> set CATEGORY_KEYS \<Longrightarrow> add_url cats k (url r) = Inr (cats(k \<mapsto> insert (url r) (the (cats k))))"
    using assms by (auto simp: add_url_def split: option.splits)
  then show ?thesis
    by (simp add: categorize_result_def category_of_def dropped_def CATEGORY_KEYS_def Let_def)
qed

lemma categorize_search_results_eq:
  assumes "set CATEGORY_KEYS \<subseteq> dom cats"
  shows "\<exists>cats'. categorize_search_results results cats = Inr cats' \<and>
     (\<forall>k. cats' k = (case cats k of None \<Rightarrow> None | Some urls \<Rightarrow> Some (urls \<union> bucket_of results k)))"
  using assms
proof (induction results arbitrary: cats)
  case Nil
  then show ?case by (auto simp: bucket_of_def split: option.splits)
next
  case (Cons r rs)
  define c1 where "c1 = (case category_of r of None \<Rightarrow> cats
          | Some k \<Rightarrow> cats(k \<mapsto> insert (url r) (the (cats k))))"
  have step: "categorize_result r cats = Inr c1"
    using Cons.prems by (simp add: categorize_result_eq c1_def)
  have dom: "set CATEGORY_KEYS \<subseteq> dom c1"
    using Cons.prems by (auto simp: c1_def split: option.splits)
  from Cons.IH [OF dom] obtain cats' where
    c: "categorize_search_results rs c1 = Inr cats'" and
    b: "\<forall>k. cats' k = (case c1 k of None \<Rightarrow> None | Some urls \<Rightarrow> Some (urls \<union> bucket_of rs k))"
    by blast
  have "\<forall>k. cats' k = (case cats k of None \<Rightarrow> None | Some urls \<Rightarrow> Some (urls \<union> bucket_of (r # rs) k))"
  proof
    fix k
    show "cats' k = (case cats k of None \<Rightarrow> None | Some urls \<Rightarrow> Some (urls \<union> bucket_of (r # rs) k))"
    proof (cases "category_of r")
      case None
      then show ?thesis using b by (auto simp: c1_def bucket_of_def split: option.splits)
    next
      case (Some k')
      then have "k' \<in> dom cats" using Cons.prems category_of_key by blast
      then show ?thesis using b Some
        by (auto simp: c1_def bucket_of_def split: option.splits)
    qed
  qed
  with step c show ?case by simp
qed


lemmas categorize_eval =
  categorize_result_def Let_def add_url_def kw_search_def REPORTS_KW_def NEWS_KW_def bucket_def
  fresh_categories_def CATEGORY_KEYS_def category_of_def dropped_def bucket_of_def
  test_results_def reel_hit_def report_hit_def news_hit_def

lemma fresh_categories_dom: "set CATEGORY_KEYS \<subseteq> dom fresh_categories"
  by (simp add: fresh_categories_def CATEGORY_KEYS_def)

text \<open>
  C5, as stated, fails on two inputs. A hit on an Instagram reel is put in no bucket:
  all seven are empty after the call. Two hits with the same URL, one with a reports
  title and one with a news title, put that URL in two buckets.
\<close>

theorem categorize_search_results_counterexample:
  "map (bucket (categorize_search_results [reel_hit] fresh_categories)) CATEGORY_KEYS =
     [Some {}, Some {}, Some {}, Some {}, Some {}, Some {}, Some {}] \<and>
   bucket (categorize_search_results [report_hit, news_hit] fresh_categories) ''reports'' =
     Some {str ''https://testcorp.com/ir''} \<and>
   bucket (categorize_search_results [report_hit, news_hit] fresh_categories) ''news'' =
     Some {str ''https://testcorp.com/ir''}"
  by (simp add: categorize_eval string_eval)

text \<open>
  C5, amended. When the dict holds the seven keys, \<open>categorize_search_results\<close> raises
  nothing and adds to every bucket exactly the URLs of the hits whose first matching rule
  names that bucket. A hit has no category exactly when it is dropped (an Instagram URL
  with \<open>stories\<close> or \<open>reel\<close>); every other hit has one of the seven categories, and its
  URL is in that bucket. When the URLs of the hits are pairwise distinct, the sets added
  to two different buckets are disjoint.
\<close>

theorem categorize_search_results_first_rule:
  assumes "set CATEGORY_KEYS \<subseteq> dom cats"
  shows "\<exists>cats'. categorize_search_results results cats = Inr cats' \<and>
      (\<forall>k. cats' k =
         (case cats k of None \<Rightarrow> None | Some urls \<Rightarrow> Some (urls \<union> bucket_of results k))) \<and>
      (\<forall>r \<in> set results. (category_of r = None) = dropped r) \<and>
      (\<forall>r \<in> set results. \<forall>k. category_of r = Some k \<longrightarrow>
         k \<in> set CATEGORY_KEYS \<and> url r \<in> bucket_of results k) \<and>
      (distinct (map url results) \<longrightarrow>
         (\<forall>k k'. k \<noteq> k' \<longrightarrow> bucket_of results k \<inter> bucket_of results k' = {}))"
proof -
  from categorize_search_results_eq [OF assms] obtain cats' where
    1: "categorize_search_results results cats = Inr cats'" and
    2: "\<forall>k. cats' k =
         (case cats k of None \<Rightarrow> None | Some urls \<Rightarrow> Some (urls \<union> bucket_of results k))"
    by blast
  have 3: "\<forall>r \<in> set results. (category_of r = None) = dropped r"
    by (auto simp: category_of_def dropped_def)
  have 4: "\<forall>r \<in> set results. \<forall>k. category_of r = Some k \<longrightarrow>
         k \<in> set CATEGORY_KEYS \<and> url r \<in> bucket_of results k"
    by (auto simp: category_of_key bucket_of_def)
  have 5: "bucket_of results k \<inter> bucket_of results k' = {}"
    if d: "distinct (map url results)" and ne: "k \<noteq> k'" for k k'
  proof (rule ccontr)
    assume "bucket_of results k \<inter> bucket_of results k' \<noteq> {}"
    then obtain r r' where r: "r \<in> set results" "category_of r = Some k"
      and r': "r' \<in> set results" "category_of r' = Some k'" and u: "url r = url r'"
      by (auto simp: bucket_of_def)
    from d have "inj_on url (set results)" by (simp add: distinct_map)
    with r(1) r'(1) u have "r = r'" by (auto dest: inj_onD)
    with r(2) r'(2) ne show False by simp
  qed
  from 1 2 3 4 5 show ?thesis by blast
qed

text \<open>The four hits of the test suite and the reel, on the dict as discovery creates it.\<close>

theorem categorize_search_results_first_rule_witness:
  "set CATEGORY_KEYS \<subseteq> dom fresh_categories \<and>
   distinct (map url (reel_hit # test_results)) \<and>
   map (bucket (categorize_search_results (reel_hit # test_results) fresh_categories)) CATEGORY_KEYS =
     [Some {str ''https://testcorp.com''}, Some {str ''https://linkedin.com/company/test''},
      Some {}, Some {}, Some {}, Some {str ''https://news.com/article''},
      Some {str ''https://example.com/report''}] \<and>
   dropped reel_hit"
proof -
  from categorize_search_results_first_rule [OF fresh_categories_dom, of "reel_hit # test_results"]
  obtain cats' where
    1: "categorize_search_results (reel_hit # test_results) fresh_categories = Inr cats'" and
    2: "\<forall>k. cats' k = (case fresh_categories k of None \<Rightarrow> None
          | Some urls \<Rightarrow> Some (urls \<union> bucket_of (reel_hit # test_results) k))"
    by blast
  have "map (bucket (categorize_search_results (reel_hit # test_results) fresh_categories))
          CATEGORY_KEYS = map cats' CATEGORY_KEYS"
    unfolding 1 bucket_def by simp
  also have "\<dots> =
     [Some {str ''https://testcorp.com''}, Some {str ''https://linkedin.com/company/test''},
      Some {}, Some {}, Some {}, Some {str ''https://news.com/article''},
      Some {str ''https://example.com/report''}]"
    unfolding 2 [rule_format] by (simp add: categorize_eval string_eval)
  finally have b: "map (bucket (categorize_search_results (reel_hit # test_results)
      fresh_categories)) CATEGORY_KEYS =
     [Some {str ''https://testcorp.com''}, Some {str ''https://linkedin.com/company/test''},
      Some {}, Some {}, Some {}, Some {str ''https://news.com/article''},
      Some {str ''https://example.com/report''}]" .
  have d: "distinct (map url (reel_hit # test_results))"
    by (simp add: categorize_eval string_eval)
  have r: "dropped reel_hit"
    by (simp add: categorize_eval string_eval)
  from fresh_categories_dom d b r show ?thesis by blast
qed

section \<open>Content Selector: the token budget\<close>

text \<open>The monetary pattern on lower-cased text: it wants a currency symbol, a decimal
  separator between digits, and a word after the number.\<close>

lemma monetary_examples:
  "rx_search MONETARY_VALUE_REGEX (str ''r$ 2,3 bi'')"
  "\<not> rx_search MONETARY_VALUE_REGEX (str ''r$ 5 bi'')"
  "\<not> rx_search MONETARY_VALUE_REGEX (str ''us$1.5'')"
  "rx_search MONETARY_VALUE_REGEX (str ''us$1.55'')"
  by (simp_all add: MONETARY_VALUE_REGEX_def Plus_def Opt_def lit_def string_eval)

lemma select_chunks_budget:
  assumes "tt \<le> MAX_TOKENS"
  shows "\<exists>k\<le>length (map sanitize_paragraph (filter relevant ps)).
           select_chunks tok tt ps = take k (map sanitize_paragraph (filter relevant ps)) \<and>
           tt + sum_list (map tok (take k (map sanitize_paragraph (filter relevant ps)))) \<le> MAX_TOKENS \<and>
           (k < length (map sanitize_paragraph (filter relevant ps)) \<longrightarrow>
              MAX_TOKENS < tt + sum_list (map tok (take (Suc k) (map sanitize_paragraph (filter relevant ps)))))"
  using assms
proof (induction ps arbitrary: tt)
  case Nil
  then show ?case by simp
next
  case (Cons p ps)
  let ?fr = "map sanitize_paragraph (filter relevant ps)"
  show ?case
  proof (cases "relevant p")
    case False
    with Cons.IH [OF Cons.prems] show ?thesis by simp
  next
    case True
    let ?n = "tok (sanitize_paragraph p)"
    show ?thesis
    proof (cases "tt + ?n \<le> MAX_TOKENS")
      case fits: True
      from Cons.IH [OF fits] obtain k where k: "k \<le> length ?fr"
        "select_chunks tok (tt + ?n) ps = take k ?fr"
        "tt + ?n + sum_list (map tok (take k ?fr)) \<le> MAX_TOKENS"
        "k < length ?fr \<longrightarrow> MAX_TOKENS < tt + ?n + sum_list (map tok (take (Suc k) ?fr))"
        by blast
      show ?thesis
        by (rule exI [of _ "Suc k"]) (use True fits k in \<open>simp add: Let_def add.assoc\<close>)
    next
      case over: False
      show ?thesis
        by (rule exI [of _ 0]) (use True over Cons.prems in \<open>simp add: Let_def\<close>)
    qed
  qed
qed

text \<open>
  C2. For every markup, every parser result and every tokenizer, the chunks that
  \<open>extract_relevant_chunks\<close> joins are the first \<open>k\<close> matching fragments, in order, for
  the \<open>k\<close> at which the budget stops the loop: the token counts of these \<open>k\<close> sum to at
  most 1350, and when a matching fragment is left, the count with it added exceeds 1350.
  So selection ends at the first fragment that does not fit, and no later one is taken,
  whatever its own size. For empty markup, and for \<open>k = 0\<close>, the result is the empty
  string.
\<close>

theorem extract_relevant_chunks_budget:
  "\<exists>k\<le>length (matching_fragments find_all_text html_content).
     extract_relevant_chunks find_all_text n_tokens html_content =
       (if html_content = [] then []
        else join [10] (take k (matching_fragments find_all_text html_content))) \<and>
     sum_list (map n_tokens (take k (matching_fragments find_all_text html_content))) \<le> MAX_TOKENS \<and>
     (k < length (matching_fragments find_all_text html_content) \<longrightarrow>
        MAX_TOKENS <
          sum_list (map n_tokens (take (Suc k) (matching_fragments find_all_text html_content))))"
proof -
  let ?fr = "matching_fragments find_all_text html_content"
  from select_chunks_budget [of 0 "find_all_text html_content" n_tokens]
  obtain k where k: "k \<le> length ?fr"
    "select_chunks n_tokens 0 (find_all_text html_content) = take k ?fr"
    "sum_list (map n_tokens (take k ?fr)) \<le> MAX_TOKENS"
    "k < length ?fr \<longrightarrow> MAX_TOKENS < sum_list (map n_tokens (take (Suc k) ?fr))"
    unfolding matching_fragments_def by auto
  have "extract_relevant_chunks find_all_text n_tokens html_content =
       (if html_content = [] then [] else join [10] (take k ?fr))"
    using k(2) by (simp add: extract_relevant_chunks_def Let_def)
  with k show ?thesis by blast
qed


lemma chunk_keyword:
  "kw_search AUM_KEYWORDS (py_lower chunk_a)" "kw_search AUM_KEYWORDS (py_lower chunk_b)"
  "kw_search AUM_KEYWORDS (py_lower chunk_c)"
  by (simp_all add: kw_search_def AUM_KEYWORDS_def chunk_a_def chunk_b_def chunk_c_def string_eval)

lemma chunk_relevant: "relevant chunk_a" "relevant chunk_b" "relevant chunk_c"
  unfolding relevant_def Let_def using chunk_keyword by blast+

lemma chunk_sanitized:
  "sanitize_paragraph chunk_a = chunk_a" "sanitize_paragraph chunk_b = chunk_b"
  "sanitize_paragraph chunk_c = chunk_c"
  by (simp_all add: sanitize_paragraph_def chunk_a_def chunk_b_def chunk_c_def string_eval)

lemma chunk_distinct: "chunk_b \<noteq> chunk_a" "chunk_c \<noteq> chunk_a" "chunk_c \<noteq> chunk_b"
  by (simp_all add: chunk_a_def chunk_b_def chunk_c_def string_eval)

lemma three_fragments:
  "matching_fragments three_paragraphs (str ''<html>'') = [chunk_a, chunk_b, chunk_c]"
  by (simp add: matching_fragments_def three_paragraphs_def chunk_relevant chunk_sanitized)

text \<open>
  With token counts 1000, 400 and 100 the second fragment does not fit, and the third is
  not taken although 1000 + 100 is within the budget.
\<close>

theorem extract_relevant_chunks_budget_witness:
  "matching_fragments three_paragraphs (str ''<html>'') = [chunk_a, chunk_b, chunk_c] \<and>
   map stub_tokens [chunk_a, chunk_b, chunk_c] = [1000, 400, 100] \<and>
   extract_relevant_chunks three_paragraphs stub_tokens (str ''<html>'') = chunk_a"
proof -
  let ?fr = "matching_fragments three_paragraphs (str ''<html>'')"
  have t: "map stub_tokens [chunk_a, chunk_b, chunk_c] = [1000, 400, 100]"
    by (simp add: stub_tokens_def chunk_distinct)
  have ne: "str ''<html>'' \<noteq> []" by (simp add: str_def)
  from extract_relevant_chunks_budget [of three_paragraphs "str ''<html>''" stub_tokens]
  obtain k where k: "k \<le> length ?fr"
    "extract_relevant_chunks three_paragraphs stub_tokens (str ''<html>'') =
       join [10] (take k ?fr)"
    "sum_list (map stub_tokens (take k ?fr)) \<le> MAX_TOKENS"
    "k < length ?fr \<longrightarrow> MAX_TOKENS < sum_list (map stub_tokens (take (Suc k) ?fr))"
    using ne by auto
  have "k = 1"
  proof -
    from k(1) have "k = 0 \<or> k = 1 \<or> k = 2 \<or> k = 3" by (auto simp: three_fragments)
    with k(3,4) show ?thesis
      using t by (auto simp: three_fragments MAX_TOKENS_def numeral_2_eq_2 numeral_3_eq_3)
  qed
  with k(2) have "extract_relevant_chunks three_paragraphs stub_tokens (str ''<html>'') = chunk_a"
    by (simp add: three_fragments)
  with three_fragments t show ?thesis by blast
qed

section \<open>Scrape Orchestrator: logs and returned pages\<close>

lemma scrape_single_url_log:
  "scrape_single_url fetch (item_url item) (item_category item) cid =
     (fetched_content fetch item, attempt_log fetch cid item)"
  by (simp add: scrape_single_url_def fetched_content_def attempt_log_def split: sum.splits)

lemma scrape_content_step:
  "scrape_content fetch cid (pages, logs) item =
     (pages @ map (returned_page fetch) (filter (returned fetch) [item]),
      logs @ map (attempt_log fetch cid) (filter attempted [item]))"
  by (simp add: scrape_content_def scrape_single_url_log returned_def attempted_def
      returned_page_def)

lemma gather_units:
  "foldl (scrape_content fetch cid) (pages, logs) items =
     (pages @ map (returned_page fetch) (filter (returned fetch) items),
      logs @ map (attempt_log fetch cid) (filter attempted items))"
proof (induction items arbitrary: pages logs)
  case Nil
  then show ?case by simp
next
  case (Cons item items)
  show ?case
    unfolding foldl_Cons scrape_content_step Cons.IH by simp
qed


lemmas scrape_eval =
  scrape_discovered_urls_def scrape_content_def scrape_single_url_def urls_to_scrape_def
  priority_order_def attempt_log_def attempted_def returned_def returned_page_def
  fetched_content_def test_discovered_def test_fetch_def test_finished_def blank_fetch_def
  empty_db_def

text \<open>
  C7, as stated, fails when a fetch succeeds with an empty page source: the attempt is
  logged with status \<open>SUCCESS\<close> and length 0, but \<open>if content:\<close> keeps the page out of
  the returned list.
\<close>

theorem scrape_discovered_urls_counterexample:
  "scrape_discovered_urls blank_fetch
     [\<lparr>item_url = str ''https://testcorp.com'', item_category = ''corporate''\<rparr>] 1 empty_db =
   ([], empty_db\<lparr>scrape_logs :=
      [\<lparr>log_company_id = 1, log_url = str ''https://testcorp.com'', status = ''SUCCESS'',
        content_length = Some 0, error_msg = None\<rparr>]\<rparr>)"
  by (simp add: scrape_eval str_def)

text \<open>
  C7, amended. In whatever order the units of the queue finish, the batch of logs holds
  exactly one entry for every queued item with a URL: \<open>SUCCESS\<close> with the length of the
  markup when the fetch returns, \<open>FAILED\<close> with the error text and its length when it
  raises. The returned list holds one item, with URL, category and content, for exactly
  the attempts that return markup that is not empty.
\<close>

theorem scrape_discovered_urls_logs:
  assumes "mset finished = mset (urls_to_scrape discovered_urls)"
  shows "\<exists>pages logs.
     scrape_discovered_urls fetch finished cid db =
       (pages, db\<lparr>scrape_logs := scrape_logs db @ logs\<rparr>) \<and>
     logs = map (attempt_log fetch cid) (filter attempted finished) \<and>
     pages = map (returned_page fetch) (filter (returned fetch) finished) \<and>
     mset logs = image_mset (attempt_log fetch cid)
       (filter_mset attempted (mset (urls_to_scrape discovered_urls))) \<and>
     mset pages = image_mset (returned_page fetch)
       (filter_mset (returned fetch) (mset (urls_to_scrape discovered_urls)))"
proof -
  let ?logs = "map (attempt_log fetch cid) (filter attempted finished)"
  let ?pages = "map (returned_page fetch) (filter (returned fetch) finished)"
  have "scrape_discovered_urls fetch finished cid db =
       (?pages, db\<lparr>scrape_logs := scrape_logs db @ ?logs\<rparr>)"
    by (simp add: scrape_discovered_urls_def gather_units)
  moreover have "mset ?logs = image_mset (attempt_log fetch cid)
       (filter_mset attempted (mset (urls_to_scrape discovered_urls)))"
    using assms by (metis mset_filter mset_map)
  moreover have "mset ?pages = image_mset (returned_page fetch)
       (filter_mset (returned fetch) (mset (urls_to_scrape discovered_urls)))"
    using assms by (metis mset_filter mset_map)
  ultimately show ?thesis by blast
qed

lemma test_finished_perm: "mset test_finished = mset (urls_to_scrape test_discovered)"
  by (simp add: scrape_eval add_mset_commute)

text \<open>A page that loads and one that times out, finishing in the opposite order of the queue.\<close>

theorem scrape_discovered_urls_logs_witness:
  "mset test_finished = mset (urls_to_scrape test_discovered) \<and>
   scrape_discovered_urls test_fetch test_finished 1 empty_db =
   ([\<lparr>page_url = str ''https://testcorp.com'', page_category = ''corporate'',
      page_content = str ''<html>Corporate content</html>''\<rparr>],
    empty_db\<lparr>scrape_logs :=
      [\<lparr>log_company_id = 1, log_url = str ''https://testcorp.com'', status = ''SUCCESS'',
        content_length = Some 30, error_msg = None\<rparr>,
       \<lparr>log_company_id = 1, log_url = str ''https://testcorp.com/reports'', status = ''FAILED'',
        content_length = Some 12, error_msg = Some (str ''Page timeout'')\<rparr>]\<rparr>)"
proof -
  from scrape_discovered_urls_logs [OF test_finished_perm, of test_fetch 1 empty_db]
  obtain pages logs where
    r: "scrape_discovered_urls test_fetch test_finished 1 empty_db =
       (pages, empty_db\<lparr>scrape_logs := scrape_logs empty_db @ logs\<rparr>)" and
    l: "logs = map (attempt_log test_fetch 1) (filter attempted test_finished)" and
    p: "pages = map (returned_page test_fetch) (filter (returned test_fetch) test_finished)"
    by blast
  have "logs = [\<lparr>log_company_id = 1, log_url = str ''https://testcorp.com'', status = ''SUCCESS'',
        content_length = Some 30, error_msg = None\<rparr>,
       \<lparr>log_company_id = 1, log_url = str ''https://testcorp.com/reports'', status = ''FAILED'',
        content_length = Some 12, error_msg = Some (str ''Page timeout'')\<rparr>]"
    unfolding l by (simp add: scrape_eval str_def)
  moreover have "pages = [\<lparr>page_url = str ''https://testcorp.com'', page_category = ''corporate'',
      page_content = str ''<html>Corporate content</html>''\<rparr>]"
    unfolding p by (simp add: scrape_eval str_def)
  ultimately show ?thesis
    using r test_finished_perm by (simp add: empty_db_def)
qed

section \<open>Discovery Engine: no two links share a URL\<close>

lemma filter_url_distinct:
  assumes "distinct (map link_url table)"
  shows "filter (\<lambda>l. link_url l = u) table = [] \<or> (\<exists>r. filter (\<lambda>l. link_url l = u) table = [r])"
  using assms
proof (induction table)
  case Nil
  then show ?case by simp
next
  case (Cons a table)
  show ?case
  proof (cases "link_url a = u")
    case True
    with Cons.prems have "u \<notin> link_url ` set table" by auto
    then have "filter (\<lambda>l. link_url l = u) table = []" by (auto simp: filter_empty_conv)
    with True show ?thesis by simp
  next
    case False
    with Cons show ?thesis by simp
  qed
qed

lemma select_by_url:
  assumes "distinct (map link_url (company_links db))"
  shows "scalar_one_or_none (filter (\<lambda>l. link_url l = u) (company_links db)) =
     Inr (if u \<in> set (map link_url (company_links db))
          then Some (hd (filter (\<lambda>l. link_url l = u) (company_links db))) else None)"
proof (cases "u \<in> set (map link_url (company_links db))")
  case True
  then have "filter (\<lambda>l. link_url l = u) (company_links db) \<noteq> []"
    by (auto simp: filter_empty_conv)
  with filter_url_distinct [OF assms, of u] obtain r where
    "filter (\<lambda>l. link_url l = u) (company_links db) = [r]" by blast
  with True show ?thesis by (simp add: scalar_one_or_none_def)
next
  case False
  then have "filter (\<lambda>l. link_url l = u) (company_links db) = []"
    by (auto simp: filter_empty_conv)
  with False show ?thesis by (simp add: scalar_one_or_none_def)
qed

lemma add_new_links_eq:
  assumes "distinct (map link_url (company_links db))"
  shows "add_new_links cid db items pending =
     Inr (pending @ map (new_link cid) (filter (unseen db) items))"
proof (induction items arbitrary: pending)
  case Nil
  then show ?case by simp
next
  case (Cons item items)
  obtain plat u where item: "item = (plat, u)" by (cases item)
  show ?case
    by (simp add: item select_by_url [OF assms] Cons.IH unseen_def new_link_def)
qed

lemma insert_links_eq:
  "insert_links table rows =
     (if distinct (map link_url rows) \<and> set (map link_url rows) \<inter> set (map link_url table) = {}
      then Inr (table @ rows) else Inl IntegrityError)"
proof (induction rows arbitrary: table)
  case Nil
  then show ?case by simp
next
  case (Cons row rows)
  show ?case by (auto simp: Cons.IH)
qed

lemma pending_urls: "link_url \<circ> new_link cid = snd"
  by (auto simp: new_link_def)

lemma save_company_links_eq:
  assumes "distinct (map link_url (company_links db))"
  shows "save_company_links cid items db =
     (if distinct (map snd (filter (unseen db) items))
      then (None, db\<lparr>company_links :=
              company_links db @ map (new_link cid) (filter (unseen db) items)\<rparr>)
      else (Some IntegrityError, db))"
proof -
  have "set (map snd (filter (unseen db) items)) \<inter> set (map link_url (company_links db)) = {}"
    by (auto simp: unseen_def)
  then show ?thesis
    by (simp add: save_company_links_def add_new_links_eq [OF assms] commit_links_def
        insert_links_eq pending_urls)
qed


text \<open>
  C6. When no two rows of \<open>company_links\<close> share a URL before discovery saves its links,
  none do afterwards, whichever company the rows belong to. The rows added are rows whose
  URL no row had, for URLs that were discovered. Saving again the same discovered URLs,
  met in any order and for any company, adds no row.
\<close>

theorem company_link_urls_unique:
  assumes inv: "distinct (map link_url (company_links db))"
      and run: "save_company_links cid items db = (err, db')"
      and again: "mset items' = mset items"
  shows "distinct (map link_url (company_links db')) \<and>
         (\<exists>new. company_links db' = company_links db @ new \<and>
                set (map link_url new) \<inter> set (map link_url (company_links db)) = {} \<and>
                set (map link_url new) \<subseteq> snd ` set items) \<and>
         company_links (snd (save_company_links cid' items' db')) = company_links db'"
proof (cases "distinct (map snd (filter (unseen db) items))")
  case True
  let ?new = "map (new_link cid) (filter (unseen db) items)"
  from run True have db': "db' = db\<lparr>company_links := company_links db @ ?new\<rparr>"
    by (simp add: save_company_links_eq [OF inv])
  have urls: "map link_url ?new = map snd (filter (unseen db) items)"
    by (simp add: pending_urls)
  have disj: "set (map link_url ?new) \<inter> set (map link_url (company_links db)) = {}"
    unfolding urls by (auto simp: unseen_def)
  have inv': "distinct (map link_url (company_links db'))"
    using inv True disj unfolding db' by (simp add: pending_urls Int_commute)
  have sub: "set (map link_url ?new) \<subseteq> snd ` set items"
    unfolding urls by auto
  have seen: "filter (unseen db') items' = []"
  proof -
    have "snd item \<in> set (map link_url (company_links db'))" if "item \<in> set items'" for item
    proof -
      from that again have "item \<in> set items" by (metis set_mset_mset)
      then show ?thesis
        unfolding db' by (cases "unseen db item") (auto simp: unseen_def pending_urls)
    qed
    then show ?thesis by (auto simp: filter_empty_conv unseen_def)
  qed
  have "save_company_links cid' items' db' = (None, db')"
    by (simp add: save_company_links_eq [OF inv'] seen)
  with inv' disj sub db' show ?thesis by auto
next
  case False
  from run False have db': "db' = db"
    by (simp add: save_company_links_eq [OF inv])
  have "mset (map snd (filter (unseen db) items')) = mset (map snd (filter (unseen db) items))"
    using again by (metis mset_filter mset_map)
  with False have "\<not> distinct (map snd (filter (unseen db) items'))"
    by (metis mset_eq_imp_distinct_iff)
  then have "save_company_links cid' items' db = (Some IntegrityError, db)"
    by (simp add: save_company_links_eq [OF inv])
  with inv db' show ?thesis by simp
qed

lemma first_run:
  "save_company_links 1 test_links empty_db =
     (None, empty_db\<lparr>company_links :=
        [\<lparr>link_company_id = 1, platform = ''corporate'', link_url = str ''https://testcorp.com''\<rparr>,
         \<lparr>link_company_id = 1, platform = ''linkedin'',
          link_url = str ''https://linkedin.com/company/test''\<rparr>]\<rparr>)"
  by (simp add: save_company_links_def commit_links_def scalar_one_or_none_def test_links_def
      empty_db_def str_def)

lemma other_links_perm: "mset other_links = mset test_links"
  by (simp add: other_links_def test_links_def add_mset_commute)

text \<open>A first company saves two links; a second company discovers the same two and adds none.\<close>

theorem company_link_urls_unique_witness:
  "distinct (map link_url (company_links empty_db)) \<and>
   save_company_links 1 test_links empty_db =
     (None, empty_db\<lparr>company_links :=
        [\<lparr>link_company_id = 1, platform = ''corporate'', link_url = str ''https://testcorp.com''\<rparr>,
         \<lparr>link_company_id = 1, platform = ''linkedin'',
          link_url = str ''https://linkedin.com/company/test''\<rparr>]\<rparr>) \<and>
   mset other_links = mset test_links \<and>
   company_links (snd (save_company_links 2 other_links
     (empty_db\<lparr>company_links :=
        [\<lparr>link_company_id = 1, platform = ''corporate'', link_url = str ''https://testcorp.com''\<rparr>,
         \<lparr>link_company_id = 1, platform = ''linkedin'',
          link_url = str ''https://linkedin.com/company/test''\<rparr>]\<rparr>))) =
     [\<lparr>link_company_id = 1, platform = ''corporate'', link_url = str ''https://testcorp.com''\<rparr>,
      \<lparr>link_company_id = 1, platform = ''linkedin'',
       link_url = str ''https://linkedin.com/company/test''\<rparr>]"
proof -
  have d: "distinct (map link_url (company_links empty_db))" by (simp add: empty_db_def)
  from company_link_urls_unique [OF d first_run other_links_perm, of 2]
  show ?thesis using d first_run other_links_perm by simp
qed

text \<open>A URL met in two buckets and not yet in the table is added twice, and the commit
  fails: no row is written.\<close>

lemma save_company_links_twice:
  "save_company_links 1
     [(''reports'', str ''https://testcorp.com/ir''), (''news'', str ''https://testcorp.com/ir'')]
     empty_db = (Some IntegrityError, empty_db)"
  by (simp add: save_company_links_def commit_links_def scalar_one_or_none_def empty_db_def)

section \<open>The concurrency bound\<close>

lemma in_flight_enter:
  "i < length us \<Longrightarrow> us ! i = Waiting \<Longrightarrow>
   length (filter (\<lambda>s. s = In_flight) (us[i := In_flight])) =
     Suc (length (filter (\<lambda>s. s = In_flight) us))"
proof (induction us arbitrary: i)
  case Nil
  then show ?case by simp
next
  case (Cons u us)
  then show ?case by (cases i) auto
qed

lemma in_flight_leave:
  "i < length us \<Longrightarrow> us ! i = In_flight \<Longrightarrow>
   Suc (length (filter (\<lambda>s. s = In_flight) (us[i := Finished]))) =
     length (filter (\<lambda>s. s = In_flight) us)"
proof (induction us arbitrary: i)
  case Nil
  then show ?case by simp
next
  case (Cons u us)
  then show ?case by (cases i) auto
qed

lemma enter_balanced: "balanced p \<Longrightarrow> enter i p = Some p' \<Longrightarrow> balanced p'"
  by (auto simp: enter_def balanced_def in_flight_def in_flight_enter split: if_splits)

lemma leave_balanced: "balanced p \<Longrightarrow> leave i p = Some p' \<Longrightarrow> balanced p'"
  using in_flight_leave [of i "units p"]
  by (auto simp: leave_def balanced_def in_flight_def split: if_splits)

lemma fire_balanced:
  assumes "balanced (discovery r)" "balanced (scraping r)" "fire e r = Some r'"
  shows "balanced (discovery r') \<and> balanced (scraping r')"
  using assms
  by (cases e) (auto split: if_splits dest: enter_balanced leave_balanced)

lemma run_events_balanced:
  assumes "balanced (discovery r)" "balanced (scraping r)" "run_events es r = Some r'"
  shows "balanced (discovery r') \<and> balanced (scraping r')"
  using assms
proof (induction es arbitrary: r)
  case Nil
  then show ?case by simp
next
  case (Cons e es)
  from Cons.prems(3) obtain r1 where r1: "fire e r = Some r1" "run_events es r1 = Some r'"
    by (auto split: option.splits)
  from fire_balanced [OF Cons.prems(1,2) r1(1)] Cons.IH r1(2) show ?case by blast
qed

lemma new_limiter_balanced: "balanced (new_limiter n)"
  by (simp add: balanced_def new_limiter_def in_flight_def)

text \<open>
  C10. In every state a pipeline run can reach, at most 4 search units are in flight in
  discovery and at most 4 fetch units in the scrape orchestrator. Each phase has its own
  semaphore, and each semaphore's value and the units in flight under it add up to 4.
\<close>

theorem at_most_four_in_flight:
  assumes "run_events es (start_run n_urls) = Some r"
  shows "in_flight (discovery r) \<le> 4 \<and> in_flight (scraping r) \<le> 4 \<and>
         sem_value (discovery r) + in_flight (discovery r) = 4 \<and>
         sem_value (scraping r) + in_flight (scraping r) = 4"
proof -
  have "balanced (discovery (start_run n_urls))" "balanced (scraping (start_run n_urls))"
    by (simp_all add: start_run_def new_limiter_balanced)
  from run_events_balanced [OF this assms] show ?thesis
    by (auto simp: balanced_def)
qed

lemmas limiter_eval =
  start_run_def new_limiter_def enter_def leave_def in_flight_def eval_nat_numeral

lemma four_searches:
  "run_events [Search_enters 0, Search_enters 1, Search_enters 2, Search_enters 3] (start_run 2) =
     Some \<lparr>discovery = \<lparr>sem_value = 0, units =
              [In_flight, In_flight, In_flight, In_flight, Waiting, Waiting, Waiting, Waiting]\<rparr>,
           scraping = \<lparr>sem_value = 4, units = [Waiting, Waiting]\<rparr>\<rparr>"
  by (simp add: limiter_eval)

lemma fifth_search:
  "run_events [Search_enters 0, Search_enters 1, Search_enters 2, Search_enters 3,
     Search_enters 4] (start_run 2) = None"
  by (simp add: limiter_eval)

text \<open>Four searches enter, which is the bound; a fifth cannot enter before one leaves.\<close>

theorem at_most_four_in_flight_witness:
  "run_events [Search_enters 0, Search_enters 1, Search_enters 2, Search_enters 3] (start_run 2) =
     Some \<lparr>discovery = \<lparr>sem_value = 0, units =
              [In_flight, In_flight, In_flight, In_flight, Waiting, Waiting, Waiting, Waiting]\<rparr>,
           scraping = \<lparr>sem_value = 4, units = [Waiting, Waiting]\<rparr>\<rparr> \<and>
   in_flight \<lparr>sem_value = 0, units =
              [In_flight, In_flight, In_flight, In_flight, Waiting, Waiting, Waiting, Waiting]\<rparr> = 4 \<and>
   in_flight \<lparr>sem_value = 4, units = [Waiting, Waiting]\<rparr> = 0 \<and>
   run_events [Search_enters 0, Search_enters 1, Search_enters 2, Search_enters 3,
     Search_enters 4] (start_run 2) = None"
  using at_most_four_in_flight [OF four_searches] four_searches fifth_search
  by (simp add: in_flight_def)

end
